theory Spec2Isabelle
  imports Main
begin

section \<open>JavaScript strings and numbers\<close>

text \<open>
  A JavaScript string is a sequence of UTF-16 code units. The model uses \<open>string\<close>, whose
  characters are the code units 0 to 255 (ASCII and Latin-1), so \<open>length\<close> counts what
  \<^verbatim>\<open>.length\<close> and \<^verbatim>\<open>substring\<close> count. Code units above 255 are outside the model.
  Numbers are \<open>int\<close> (the \<^verbatim>\<open>limit\<close> argument, which may be negative) or \<open>nat\<close>
  (values parsed from digits); they agree with JavaScript's doubles on integers below
  \<open>2 ^ 53\<close>. Fractions and NaN are outside the model.
\<close>

definition code :: "char \<Rightarrow> nat" where
  "code c = of_char c"

text \<open>\<^verbatim>\<open>String.prototype.toLowerCase\<close> on Latin-1: A to Z and the accented capitals
  0xC0 to 0xDE (but not the multiplication sign 0xD7) move up by 32.\<close>

definition isUpperCode :: "nat \<Rightarrow> bool" where
  "isUpperCode n = ((65 \<le> n \<and> n \<le> 90) \<or> (192 \<le> n \<and> n \<le> 222 \<and> n \<noteq> 215))"

definition lowerChar :: "char \<Rightarrow> char" where
  "lowerChar c = (let n = code c in if isUpperCode n then char_of (n + 32) else c)"

definition toLowerCase :: "string \<Rightarrow> string" where
  "toLowerCase s = map lowerChar s"

fun startsWith :: "string \<Rightarrow> string \<Rightarrow> bool" where
  "startsWith s [] = True"
| "startsWith [] (p # ps) = False"
| "startsWith (c # cs) (p # ps) = (c = p \<and> startsWith cs ps)"

text \<open>\<^verbatim>\<open>String.prototype.includes\<close>.\<close>

fun includes_str :: "string \<Rightarrow> string \<Rightarrow> bool" where
  "includes_str [] sub = (sub = [])"
| "includes_str (c # cs) sub = (startsWith (c # cs) sub \<or> includes_str cs sub)"

text \<open>White space and line terminators below 256: what \<^verbatim>\<open>\s\<close> matches and
  \<^verbatim>\<open>trim\<close> strips.\<close>

definition isWhiteSpaceCode :: "nat \<Rightarrow> bool" where
  "isWhiteSpaceCode n = ((9 \<le> n \<and> n \<le> 13) \<or> n = 32 \<or> n = 160)"

definition isWhiteSpace :: "char \<Rightarrow> bool" where
  "isWhiteSpace c = isWhiteSpaceCode (code c)"

definition trim :: "string \<Rightarrow> string" where
  "trim s = rev (dropWhile isWhiteSpace (rev (dropWhile isWhiteSpace s)))"

text \<open>\<^verbatim>\<open>x || ''\<close> on a string that may be absent.\<close>

definition orEmpty :: "string option \<Rightarrow> string" where
  "orEmpty x = (case x of None \<Rightarrow> [] | Some s \<Rightarrow> s)"

text \<open>Truthiness of a string that may be absent: present and not empty.\<close>

definition truthy :: "string option \<Rightarrow> bool" where
  "truthy x = (case x of None \<Rightarrow> False | Some s \<Rightarrow> s \<noteq> [])"

text \<open>\<^verbatim>\<open>Array.prototype.join\<close>.\<close>

fun join :: "string \<Rightarrow> string list \<Rightarrow> string" where
  "join sep [] = []"
| "join sep [x] = x"
| "join sep (x # y # ys) = x @ sep @ join sep (y # ys)"

definition isDigitCode :: "nat \<Rightarrow> bool" where
  "isDigitCode n = (48 \<le> n \<and> n \<le> 57)"

definition isDigit :: "char \<Rightarrow> bool" where
  "isDigit c = isDigitCode (code c)"

text \<open>\<^verbatim>\<open>parseInt\<close> on a captured group: absent (\<^verbatim>\<open>undefined\<close>) or a string without
  a leading digit gives NaN, here \<open>None\<close>; otherwise the leading digits are read in base 10.
  The groups it is applied to hold digits only, so signs, leading blanks and the
  \<^verbatim>\<open>0x\<close> prefix do not occur.\<close>

definition parseInt :: "string option \<Rightarrow> nat option" where
  "parseInt x =
     (case x of
        None \<Rightarrow> None
      | Some s \<Rightarrow>
          (let ds = takeWhile isDigit s
           in if ds = [] then None else Some (foldl (\<lambda>n c. 10 * n + (code c - 48)) 0 ds)))"

text \<open>\<^verbatim>\<open>x || 0\<close>: NaN and 0 are falsy.\<close>

definition orZero :: "nat option \<Rightarrow> nat" where
  "orZero x = (case x of None \<Rightarrow> 0 | Some n \<Rightarrow> n)"

text \<open>A number inside a template literal: its decimal digits.\<close>

fun showNat :: "nat \<Rightarrow> string" where
  "showNat n = (if n < 10 then [char_of (48 + n)] else showNat (n div 10) @ [char_of (48 + n mod 10)])"

declare showNat.simps [simp del]

text \<open>\<^verbatim>\<open>Array.prototype.slice(0, k)\<close>: a negative \<open>k\<close> counts from the end.\<close>

definition slice0 :: "'a list \<Rightarrow> int \<Rightarrow> 'a list" where
  "slice0 xs k = (if k < 0 then take (nat (int (length xs) + k)) xs else take (nat k) xs)"

text \<open>\<^verbatim>\<open>n || d\<close> on a number that may be absent: absent and 0 give the default.\<close>

definition orDefault :: "int option \<Rightarrow> int \<Rightarrow> int" where
  "orDefault x d = (case x of None \<Rightarrow> d | Some n \<Rightarrow> if n = 0 then d else n)"

section \<open>Regular expressions\<close>

text \<open>
  The patterns of the source carry the flag \<^verbatim>\<open>i\<close>: a pattern character and an input
  character match when their canonical forms (upper case) are equal. Two Latin-1 letters
  have their capital above 255.
\<close>

definition isLowerCode :: "nat \<Rightarrow> bool" where
  "isLowerCode n = ((97 \<le> n \<and> n \<le> 122) \<or> (224 \<le> n \<and> n \<le> 254 \<and> n \<noteq> 247))"

definition canonicalize :: "char \<Rightarrow> nat" where
  "canonicalize c =
     (let n = code c
      in if isLowerCode n then n - 32
         else if n = 255 then 376
         else if n = 181 then 924
         else n)"

text \<open>The members of a character class: single characters, ranges, \<^verbatim>\<open>\s\<close> and
  \<^verbatim>\<open>\d\<close>. \<open>citem_has it n\<close>: the character with code \<open>n\<close> is a member of \<open>it\<close>.\<close>

datatype citem = Single char | Range char char | ClassS | ClassD

fun citem_has :: "citem \<Rightarrow> nat \<Rightarrow> bool" where
  "citem_has (Single a) n = (n = code a)"
| "citem_has (Range lo hi) n = (code lo \<le> n \<and> n \<le> code hi)"
| "citem_has ClassS n = isWhiteSpaceCode n"
| "citem_has ClassD n = isDigitCode n"

text \<open>The codes of the characters whose canonical form is that of \<open>c\<close>: \<open>c\<close> itself and
  its other case.\<close>

definition caseVariants :: "char \<Rightarrow> nat list" where
  "caseVariants c =
     (let n = code c
      in if isUpperCode n then [n, n + 32] else if isLowerCode n then [n, n - 32] else [n])"

text \<open>An input character matches a class when the class has a member with the same
  canonical form.\<close>

definition classMatches :: "citem list \<Rightarrow> char \<Rightarrow> bool" where
  "classMatches A ch = list_ex (\<lambda>n. list_ex (\<lambda>it. citem_has it n) A) (caseVariants ch)"

datatype regex =
    Lit char
  | Class "citem list"
  | NClass "citem list"
  | Bol
  | Eps
  | Seq regex regex
  | Alt regex regex
  | Star regex
  | Opt regex
  | Group nat regex

text \<open>
  A matcher state is the index reached, the input still to read and the groups captured so
  far (the newest first). \<open>matchR r st\<close> lists the states in which \<open>r\<close> can end when started
  in \<open>st\<close>, in the order in which a backtracking matcher tries them: quantifiers are greedy,
  the left alternative comes first. An iteration of \<^verbatim>\<open>*\<close> or \<^verbatim>\<open>?\<close> that reads nothing is
  rejected, as the language standard has it.
\<close>

type_synonym captures = "(nat \<times> string) list"
type_synonym mstate = "nat \<times> string \<times> captures"

fun matchR :: "regex \<Rightarrow> mstate \<Rightarrow> mstate list" where
  "matchR (Lit a) (i, cs, caps) =
     (case cs of [] \<Rightarrow> []
      | c # cs' \<Rightarrow> if canonicalize a = canonicalize c then [(Suc i, cs', caps)] else [])"
| "matchR (Class A) (i, cs, caps) =
     (case cs of [] \<Rightarrow> []
      | c # cs' \<Rightarrow> if classMatches A c then [(Suc i, cs', caps)] else [])"
| "matchR (NClass A) (i, cs, caps) =
     (case cs of [] \<Rightarrow> []
      | c # cs' \<Rightarrow> if classMatches A c then [] else [(Suc i, cs', caps)])"
| "matchR Bol (i, cs, caps) = (if i = 0 then [(i, cs, caps)] else [])"
| "matchR Eps st = [st]"
| "matchR (Seq r1 r2) st = concat (map (matchR r2) (matchR r1 st))"
| "matchR (Alt r1 r2) st = matchR r1 st @ matchR r2 st"
| "matchR (Star r) (i, cs, caps) =
     concat (map (\<lambda>st'. if length (fst (snd st')) < length cs then matchR (Star r) st' else [])
                 (matchR r (i, cs, caps)))
     @ [(i, cs, caps)]"
| "matchR (Opt r) (i, cs, caps) =
     filter (\<lambda>st'. length (fst (snd st')) < length cs) (matchR r (i, cs, caps)) @ [(i, cs, caps)]"
| "matchR (Group n r) (i, cs, caps) =
     map (\<lambda>st'. (fst st', fst (snd st'), (n, take (fst st' - i) cs) # snd (snd st')))
         (matchR r (i, cs, caps))"

text \<open>\<^verbatim>\<open>String.prototype.match\<close> with a pattern that is not global: the leftmost start
  index at which the pattern matches, and there the first way to match. The result is the
  list of captured groups; \<open>map_of m k\<close> is \<^verbatim>\<open>match[k]\<close>.\<close>

fun searchFrom :: "regex \<Rightarrow> nat \<Rightarrow> string \<Rightarrow> captures option" where
  "searchFrom r i cs =
     (case matchR r (i, cs, []) of
        st # _ \<Rightarrow> Some (snd (snd st))
      | [] \<Rightarrow> (case cs of [] \<Rightarrow> None | _ # cs' \<Rightarrow> searchFrom r (Suc i) cs'))"

definition regexMatch :: "regex \<Rightarrow> string \<Rightarrow> captures option" where
  "regexMatch r s = searchFrom r 0 s"

fun seqs :: "regex list \<Rightarrow> regex" where
  "seqs [] = Eps"
| "seqs [r] = r"
| "seqs (r # r' # rs) = Seq r (seqs (r' # rs))"

definition Str :: "string \<Rightarrow> regex" where
  "Str s = seqs (map Lit s)"

definition Plus :: "regex \<Rightarrow> regex" where
  "Plus r = Seq r (Star r)"

abbreviation spaces :: regex where
  "spaces \<equiv> Class [ClassS]"

abbreviation digits :: regex where
  "digits \<equiv> Plus (Class [ClassD])"

section \<open>The data model\<close>

record Attachment =
  att_title :: "string option"
  att_text :: "string option"
  att_color :: "string option"

record RawMessage =
  msg_ts :: string
  msg_text :: "string option"
  msg_attachments :: "Attachment list option"
  msg_user :: "string option"
  msg_bot_id :: "string option"

record Duration =
  minutes :: nat
  seconds :: nat
  totalSeconds :: nat
  formatted :: string

record ParsedBuild =
  pb_timestamp :: string
  pb_status :: string
  pb_workflow :: "string option"
  pb_duration :: "Duration option"
  pb_text :: string
  pb_attachments :: "Attachment list option"

text \<open>A thrown value: its \<^verbatim>\<open>message\<close> and, for an error of the Slack client, the
  \<^verbatim>\<open>data.error\<close> code.\<close>

datatype js_error = JsError (err_message: string) (err_data_error: "string option")

section \<open>Duration extraction\<close>

text \<open>\<^verbatim>\<open>(?:min(?:ute)?s?)\<close> and \<^verbatim>\<open>(?:sec(?:ond)?s?)\<close>.\<close>

definition minUnit :: regex where
  "minUnit = seqs [Str ''min'', Opt (Str ''ute''), Opt (Lit CHR ''s'')]"

definition secUnit :: regex where
  "secUnit = seqs [Str ''sec'', Opt (Str ''ond''), Opt (Lit CHR ''s'')]"

text \<open>\<^verbatim>\<open>(\d+)\s*(?:min(?:ute)?s?)?(?:\s*(\d+)\s*(?:sec(?:ond)?s?)?)?\<close>, the common tail of the
  first three patterns.\<close>

definition durationTail :: regex where
  "durationTail =
     seqs [Group 1 digits, Star spaces, Opt minUnit,
           Opt (seqs [Star spaces, Group 2 digits, Star spaces, Opt secUnit])]"

definition patDuration :: regex where
  "patDuration = seqs [Str ''duration'', Plus (Class [Single CHR '':'', ClassS]), durationTail]"

definition patTook :: regex where
  "patTook = seqs [Str ''took'', Plus spaces, durationTail]"

definition patCompletedIn :: regex where
  "patCompletedIn = seqs [Str ''completed'', Plus spaces, Str ''in'', Plus spaces, durationTail]"

text \<open>\<^verbatim>\<open>(\d+)\s*(?:min(?:ute)?s?)\s*(?:(\d+)\s*(?:sec(?:ond)?s?)?)?\<close>\<close>

definition patBareMin :: regex where
  "patBareMin =
     seqs [Group 1 digits, Star spaces, minUnit, Star spaces,
           Opt (seqs [Group 2 digits, Star spaces, Opt secUnit])]"

text \<open>\<^verbatim>\<open>(\d+):(\d+)\s*(?:min)?\<close>\<close>

definition patColon :: regex where
  "patColon = seqs [Group 1 digits, Lit CHR '':'', Group 2 digits, Star spaces, Opt (Str ''min'')]"

definition durationPatterns :: "regex list" where
  "durationPatterns = [patDuration, patTook, patCompletedIn, patBareMin, patColon]"

definition attachmentLine :: "Attachment \<Rightarrow> string" where
  "attachmentLine a = orEmpty (att_title a) @ '' '' @ orEmpty (att_text a)"

text \<open>\<^verbatim>\<open>allText\<close>: the body, a blank, and the attachment lines joined by blanks.\<close>

definition allText :: "string \<Rightarrow> Attachment list option \<Rightarrow> string" where
  "allText text attachments =
     text @ '' '' @ (case attachments of None \<Rightarrow> [] | Some as \<Rightarrow> join '' '' (map attachmentLine as))"

text \<open>The numbers are exact naturals: they are the numbers of the source, and \<open>showNat\<close>
  prints them as the source does, for minutes and seconds below \<open>2 ^ 53\<close>; from there on the
  doubles of the source round.\<close>

definition durationOf :: "captures \<Rightarrow> Duration" where
  "durationOf m =
     (let mins = orZero (parseInt (map_of m 1));
          secs = orZero (parseInt (map_of m 2))
      in \<lparr>minutes = mins, seconds = secs, totalSeconds = mins * 60 + secs,
          formatted = (if mins > 0 then showNat mins @ ''m '' @ showNat secs @ ''s''
                       else showNat secs @ ''s'')\<rparr>)"

text \<open>The loop over the patterns.\<close>

fun firstDuration :: "regex list \<Rightarrow> string \<Rightarrow> Duration option" where
  "firstDuration [] s = None"
| "firstDuration (p # ps) s =
     (case regexMatch p s of Some m \<Rightarrow> Some (durationOf m) | None \<Rightarrow> firstDuration ps s)"

definition extractDuration :: "string \<Rightarrow> Attachment list option \<Rightarrow> Duration option" where
  "extractDuration text attachments = firstDuration durationPatterns (allText text attachments)"

section \<open>Workflow extraction\<close>

text \<open>\<^verbatim>\<open>workflow[:\s]+([^\n\r,]+)\<close>\<close>

definition patWorkflowLabel :: regex where
  "patWorkflowLabel =
     seqs [Str ''workflow'', Plus (Class [Single CHR '':'', ClassS]),
           Group 1 (Plus (NClass [Single (CHR 0x0A), Single (CHR 0x0D), Single CHR '','']))]"

text \<open>\<^verbatim>\<open>[A-Z][a-zA-Z0-9-]+\<close>\<close>

definition nameWord :: regex where
  "nameWord =
     Seq (Class [Range CHR ''A'' CHR ''Z''])
         (Plus (Class [Range CHR ''a'' CHR ''z'', Range CHR ''A'' CHR ''Z'',
                       Range CHR ''0'' CHR ''9'', Single CHR ''-'']))"

text \<open>\<^verbatim>\<open>^([A-Z][a-zA-Z0-9-]+(?:\s+[A-Z][a-zA-Z0-9-]+)*)\s+(?:build|workflow)\<close>\<close>

definition patLeadingName :: regex where
  "patLeadingName =
     seqs [Bol, Group 1 (Seq nameWord (Star (Seq (Plus spaces) nameWord))),
           Plus spaces, Alt (Str ''build'') (Str ''workflow'')]"

definition workflowPatterns :: "regex list" where
  "workflowPatterns = [patWorkflowLabel, patLeadingName]"

text \<open>The loop over the patterns. \<^verbatim>\<open>match[1].trim()\<close> throws a TypeError when the
  group is absent.\<close>

fun firstWorkflow :: "regex list \<Rightarrow> string \<Rightarrow> js_error + string option" where
  "firstWorkflow [] s = Inr None"
| "firstWorkflow (p # ps) s =
     (case regexMatch p s of
        Some m \<Rightarrow>
          (case map_of m 1 of
             None \<Rightarrow> Inl (JsError ''Cannot read properties of undefined (reading 'trim')'' None)
           | Some g \<Rightarrow> Inr (Some (trim g)))
      | None \<Rightarrow> firstWorkflow ps s)"

text \<open>The title of the first attachment, when it has between 1 and 49 characters.\<close>

definition titleFallback :: "Attachment list option \<Rightarrow> string option" where
  "titleFallback attachments =
     (case attachments of
        Some (a # _) \<Rightarrow>
          (case att_title a of
             Some t \<Rightarrow> if t \<noteq> [] \<and> length t > 0 \<and> length t < 50 then Some t else None
           | None \<Rightarrow> None)
      | _ \<Rightarrow> None)"

definition extractWorkflow :: "string \<Rightarrow> Attachment list option \<Rightarrow> js_error + string option" where
  "extractWorkflow text attachments =
     (case firstWorkflow workflowPatterns (allText text attachments) of
        Inl e \<Rightarrow> Inl e
      | Inr (Some w) \<Rightarrow> Inr (Some w)
      | Inr None \<Rightarrow> Inr (titleFallback attachments))"

section \<open>Status classification and message normalisation\<close>

text \<open>The source lowers the text anew for each test; \<open>lower\<close> is that one value.\<close>

definition classifyStatus :: "string \<Rightarrow> string" where
  "classifyStatus text =
     (let lower = toLowerCase text
      in if includes_str lower ''succeeded'' \<or> includes_str lower ''success'' then ''succeeded''
         else if includes_str lower ''failed'' \<or> includes_str lower ''failure'' then ''failed''
         else if includes_str lower ''started'' \<or> includes_str lower ''running'' then ''running''
         else if includes_str lower ''cancelled'' \<or> includes_str lower ''canceled'' then ''cancelled''
         else ''unknown'')"

definition summarize :: "Attachment \<Rightarrow> Attachment" where
  "summarize a =
     \<lparr>att_title = att_title a, att_text = map_option (take 200) (att_text a), att_color = att_color a\<rparr>"

text \<open>
  The callback of \<^verbatim>\<open>result.messages.map\<close>. The timestamp goes through
  \<^verbatim>\<open>new Date(parseFloat(ts) * 1000).toISOString()\<close>, floating-point arithmetic of the
  platform: it is the parameter \<open>toISOString\<close>, which is \<open>None\<close> where the date is invalid
  and \<^verbatim>\<open>toISOString\<close> throws a RangeError.
\<close>

definition normalizeMessage :: "(string \<Rightarrow> string option) \<Rightarrow> RawMessage \<Rightarrow> js_error + ParsedBuild" where
  "normalizeMessage toISOString msg =
     (case toISOString (msg_ts msg) of
        None \<Rightarrow> Inl (JsError ''Invalid time value'' None)
      | Some timestamp \<Rightarrow>
          (let text = orEmpty (msg_text msg);
               status = classifyStatus text
           in case extractWorkflow text (msg_attachments msg) of
                Inl e \<Rightarrow> Inl e
              | Inr workflow \<Rightarrow>
                  (let duration = extractDuration text (msg_attachments msg)
                   in Inr \<lparr>pb_timestamp = timestamp, pb_status = status, pb_workflow = workflow,
                           pb_duration = duration, pb_text = take 500 text,
                           pb_attachments = map_option (map summarize) (msg_attachments msg)\<rparr>)))"

section \<open>The tool dispatcher\<close>

text \<open>The arguments of a tool call; each may be absent, and so may the whole object.\<close>

record Args =
  arg_limit :: "int option"
  arg_workflow :: "string option"
  arg_channel_id :: "string option"
  arg_text :: "string option"
  arg_query :: "string option"

record SearchMatch =
  sm_ts :: string
  sm_channel :: "string option"
  sm_text :: "string option"
  sm_user :: "string option"

record SearchResult =
  sr_matches :: "SearchMatch list option"
  sr_total :: "int option"

record Channel =
  ch_id :: string
  ch_name :: string
  ch_is_private :: bool
  ch_is_member :: bool
  ch_topic :: "string option"

record PostResult =
  post_ok :: bool
  post_ts :: "string option"
  post_channel :: "string option"

record ChannelMessage =
  cm_timestamp :: string
  cm_user :: "string option"
  cm_text :: "string option"
  cm_bot_id :: "string option"

text \<open>The messaging client: each call returns its result or throws.\<close>

record SlackClient =
  conversations_history :: "string \<Rightarrow> int \<Rightarrow> js_error + RawMessage list option"
  search_messages :: "string \<Rightarrow> int \<Rightarrow> js_error + SearchResult"
  chat_postMessage :: "string \<Rightarrow> string \<Rightarrow> js_error + PostResult"
  conversations_list :: "int \<Rightarrow> js_error + Channel list option"

text \<open>The object handed to \<^verbatim>\<open>JSON.stringify\<close>, one shape for each tool. The text of an
  envelope is either a fixed message or the serialisation of such an object.\<close>

datatype payload =
    BuildsJson "ParsedBuild list" "string option" nat
  | MessagesJson "ChannelMessage list"
  | SearchJson "SearchMatch list" int
  | SentJson bool "string option" "string option"
  | ChannelsJson "Channel list"

datatype content = Plain string | Json payload

text \<open>\<open>env_isError\<close> is \<open>None\<close> when the envelope has no \<^verbatim>\<open>isError\<close> key.\<close>

record Envelope =
  env_content :: content
  env_isError :: "bool option"

definition soft :: "string \<Rightarrow> Envelope" where
  "soft s = \<lparr>env_content = Plain s, env_isError = None\<rparr>"

definition ok :: "payload \<Rightarrow> Envelope" where
  "ok p = \<lparr>env_content = Json p, env_isError = None\<rparr>"

text \<open>\<^verbatim>\<open>xs.map(f)\<close> with a callback that may throw: the first throw ends the loop.\<close>

fun mapE :: "('a \<Rightarrow> js_error + 'b) \<Rightarrow> 'a list \<Rightarrow> js_error + 'b list" where
  "mapE f [] = Inr []"
| "mapE f (x # xs) =
     (case f x of
        Inl e \<Rightarrow> Inl e
      | Inr y \<Rightarrow> (case mapE f xs of Inl e \<Rightarrow> Inl e | Inr ys \<Rightarrow> Inr (y # ys)))"

definition workflowFilter :: "Args \<Rightarrow> string option" where
  "workflowFilter args = map_option toLowerCase (arg_workflow args)"

definition fetchLimit :: "Args \<Rightarrow> int" where
  "fetchLimit args =
     (if truthy (workflowFilter args) then min (orDefault (arg_limit args) 5 * 4) 100
      else min (orDefault (arg_limit args) 5) 20)"

text \<open>The callback of \<^verbatim>\<open>buildMessages.filter\<close>.\<close>

definition matchesFilter :: "string \<Rightarrow> ParsedBuild \<Rightarrow> bool" where
  "matchesFilter f msg =
     (let workflow = orEmpty (map_option toLowerCase (pb_workflow msg));
          text = toLowerCase (pb_text msg);
          attachmentText =
            orEmpty (map_option (\<lambda>as. toLowerCase (join '' '' (map attachmentLine as)))
                                (pb_attachments msg))
      in includes_str workflow f \<or> includes_str text f \<or> includes_str attachmentText f)"

definition applyFilter :: "Args \<Rightarrow> ParsedBuild list \<Rightarrow> ParsedBuild list" where
  "applyFilter args buildMessages =
     (if truthy (workflowFilter args)
      then filter (matchesFilter (orEmpty (workflowFilter args))) buildMessages
      else buildMessages)"

definition resultLimit :: "Args \<Rightarrow> int" where
  "resultLimit args = min (orDefault (arg_limit args) 5) 20"

definition checkBuildStatus ::
  "string option \<Rightarrow> SlackClient \<Rightarrow> (string \<Rightarrow> string option) \<Rightarrow> Args \<Rightarrow> js_error + Envelope" where
  "checkBuildStatus buildChannelId slack toISOString args =
     (if \<not> truthy buildChannelId
      then Inr (soft ''Error: SLACK_BUILD_CHANNEL_ID not configured. Please set it in your MCP config.'')
      else
        (case conversations_history slack (orEmpty buildChannelId) (fetchLimit args) of
           Inl e \<Rightarrow> Inl e
         | Inr None \<Rightarrow> Inr (soft ''No build messages found in the channel.'')
         | Inr (Some []) \<Rightarrow> Inr (soft ''No build messages found in the channel.'')
         | Inr (Some (m # ms)) \<Rightarrow>
             (case mapE (normalizeMessage toISOString) (m # ms) of
                Inl e \<Rightarrow> Inl e
              | Inr parsed \<Rightarrow>
                  (let buildMessages = slice0 (applyFilter args parsed) (resultLimit args)
                   in Inr (ok (BuildsJson buildMessages
                                 (if truthy (workflowFilter args) then arg_workflow args else None)
                                 (length buildMessages)))))))"

definition channelOrDefault :: "string option \<Rightarrow> Args \<Rightarrow> string option" where
  "channelOrDefault buildChannelId args =
     (if truthy (arg_channel_id args) then arg_channel_id args else buildChannelId)"

definition channelMessage :: "(string \<Rightarrow> string option) \<Rightarrow> RawMessage \<Rightarrow> js_error + ChannelMessage" where
  "channelMessage toISOString msg =
     (case toISOString (msg_ts msg) of
        None \<Rightarrow> Inl (JsError ''Invalid time value'' None)
      | Some timestamp \<Rightarrow>
          Inr \<lparr>cm_timestamp = timestamp, cm_user = msg_user msg,
               cm_text = map_option (take 500) (msg_text msg), cm_bot_id = msg_bot_id msg\<rparr>)"

definition getChannelMessages ::
  "string option \<Rightarrow> SlackClient \<Rightarrow> (string \<Rightarrow> string option) \<Rightarrow> Args \<Rightarrow> js_error + Envelope" where
  "getChannelMessages buildChannelId slack toISOString args =
     (if \<not> truthy (channelOrDefault buildChannelId args)
      then Inr (soft ''Error: No channel_id provided and SLACK_BUILD_CHANNEL_ID not configured.'')
      else
        (case conversations_history slack (orEmpty (channelOrDefault buildChannelId args))
                (min (orDefault (arg_limit args) 10) 100) of
           Inl e \<Rightarrow> Inl e
         | Inr messages \<Rightarrow>
             (case mapE (channelMessage toISOString) (case messages of None \<Rightarrow> [] | Some ms \<Rightarrow> ms) of
                Inl e \<Rightarrow> Inl e
              | Inr ms \<Rightarrow> Inr (ok (MessagesJson ms)))))"

definition searchHit :: "(string \<Rightarrow> string option) \<Rightarrow> SearchMatch \<Rightarrow> js_error + SearchMatch" where
  "searchHit toISOString m =
     (case toISOString (sm_ts m) of
        None \<Rightarrow> Inl (JsError ''Invalid time value'' None)
      | Some timestamp \<Rightarrow>
          Inr \<lparr>sm_ts = timestamp, sm_channel = sm_channel m,
               sm_text = map_option (take 500) (sm_text m), sm_user = sm_user m\<rparr>)"

text \<open>The body of the inner \<^verbatim>\<open>try\<close> of the search tool.\<close>

definition searchBody ::
  "SlackClient \<Rightarrow> (string \<Rightarrow> string option) \<Rightarrow> string \<Rightarrow> int \<Rightarrow> js_error + Envelope" where
  "searchBody slack toISOString query limit =
     (case search_messages slack query limit of
        Inl e \<Rightarrow> Inl e
      | Inr result \<Rightarrow>
          (case mapE (searchHit toISOString) (case sr_matches result of None \<Rightarrow> [] | Some ms \<Rightarrow> ms) of
             Inl e \<Rightarrow> Inl e
           | Inr matches \<Rightarrow> Inr (ok (SearchJson matches (orDefault (sr_total result) 0)))))"

definition searchMessages ::
  "SlackClient \<Rightarrow> (string \<Rightarrow> string option) \<Rightarrow> Args \<Rightarrow> js_error + Envelope" where
  "searchMessages slack toISOString args =
     (if \<not> truthy (arg_query args)
      then Inr (soft ''Error: query parameter is required'')
      else
        (case searchBody slack toISOString (orEmpty (arg_query args))
                (min (orDefault (arg_limit args) 10) 100) of
           Inr env \<Rightarrow> Inr env
         | Inl error \<Rightarrow>
             (if err_data_error error = Some ''missing_scope''
              then Inr (soft ''Error: Bot token missing 'search:read' scope. Add it in your Slack App settings.'')
              else Inl error)))"

definition sendMessage :: "string option \<Rightarrow> SlackClient \<Rightarrow> Args \<Rightarrow> js_error + Envelope" where
  "sendMessage buildChannelId slack args =
     (if \<not> truthy (channelOrDefault buildChannelId args)
      then Inr (soft ''Error: No channel_id provided and SLACK_BUILD_CHANNEL_ID not configured.'')
      else if \<not> truthy (arg_text args)
      then Inr (soft ''Error: text parameter is required'')
      else
        (case chat_postMessage slack (orEmpty (channelOrDefault buildChannelId args))
                (orEmpty (arg_text args)) of
           Inl e \<Rightarrow> Inl e
         | Inr result \<Rightarrow>
             Inr (ok (SentJson (post_ok result) (post_ts result) (post_channel result)))))"

definition channelInfo :: "Channel \<Rightarrow> Channel" where
  "channelInfo ch = ch\<lparr>ch_topic := map_option (take 100) (ch_topic ch)\<rparr>"

definition listChannels :: "SlackClient \<Rightarrow> Args \<Rightarrow> js_error + Envelope" where
  "listChannels slack args =
     (case conversations_list slack (min (orDefault (arg_limit args) 50) 200) of
        Inl e \<Rightarrow> Inl e
      | Inr channels \<Rightarrow>
          Inr (ok (ChannelsJson (map channelInfo (case channels of None \<Rightarrow> [] | Some cs \<Rightarrow> cs)))))"

text \<open>The \<^verbatim>\<open>switch\<close> inside the \<^verbatim>\<open>try\<close>.\<close>

definition handleTool ::
  "string option \<Rightarrow> SlackClient \<Rightarrow> (string \<Rightarrow> string option) \<Rightarrow> string \<Rightarrow> Args \<Rightarrow> js_error + Envelope" where
  "handleTool buildChannelId slack toISOString name args =
     (if name = ''check_build_status'' then checkBuildStatus buildChannelId slack toISOString args
      else if name = ''get_channel_messages'' then getChannelMessages buildChannelId slack toISOString args
      else if name = ''search_messages'' then searchMessages slack toISOString args
      else if name = ''send_message'' then sendMessage buildChannelId slack args
      else if name = ''list_channels'' then listChannels slack args
      else Inr \<lparr>env_content = Plain (''Unknown tool: '' @ name), env_isError = Some True\<rparr>)"

text \<open>The handler of a tool call: the \<^verbatim>\<open>switch\<close> and the \<^verbatim>\<open>catch\<close> around it.\<close>

definition callTool ::
  "string option \<Rightarrow> SlackClient \<Rightarrow> (string \<Rightarrow> string option) \<Rightarrow> string \<Rightarrow> Args \<Rightarrow> Envelope" where
  "callTool buildChannelId slack toISOString name args =
     (case handleTool buildChannelId slack toISOString name args of
        Inr env \<Rightarrow> env
      | Inl error \<Rightarrow>
          \<lparr>env_content = Plain (''Slack API error: '' @ err_message error), env_isError = Some True\<rparr>)"

text \<open>The envelope that the \<^verbatim>\<open>catch\<close> of the handler builds from what was thrown.\<close>

definition caught :: "js_error \<Rightarrow> Envelope" where
  "caught error =
     \<lparr>env_content = Plain (''Slack API error: '' @ err_message error), env_isError = Some True\<rparr>"

section \<open>The specification's notions\<close>

text \<open>\<open>occurs_ci kw t\<close>: the text \<open>t\<close> contains the keyword \<open>kw\<close> (written in lower case) when
  case is ignored: some stretch of \<open>t\<close> is \<open>kw\<close> once lowered.\<close>

definition occurs_ci :: "string \<Rightarrow> string \<Rightarrow> bool" where
  "occurs_ci kw t = (\<exists>ps ms ss. t = ps @ ms @ ss \<and> toLowerCase ms = kw)"

text \<open>The keyword groups of the specification, in its order, each with its status.\<close>

definition statusGroups :: "(string list \<times> string) list" where
  "statusGroups =
     [([''succeeded'', ''success''], ''succeeded''),
      ([''failed'', ''failure''], ''failed''),
      ([''started'', ''running''], ''running''),
      ([''cancelled'', ''canceled''], ''cancelled'')]"

text \<open>The classifier as the specification words it: the status of the first group one of
  whose keywords occurs, else unknown.\<close>

definition spec_classify :: "string \<Rightarrow> string" where
  "spec_classify t =
     (case find (\<lambda>g. list_ex (\<lambda>kw. occurs_ci kw t) (fst g)) statusGroups of
        None \<Rightarrow> ''unknown''
      | Some g \<Rightarrow> snd g)"

text \<open>\<open>contains hay needle\<close>: \<open>needle\<close> is a substring of \<open>hay\<close>.\<close>

definition contains :: "string \<Rightarrow> string \<Rightarrow> bool" where
  "contains hay needle = (\<exists>ps ss. hay = ps @ needle @ ss)"

text \<open>The filter as the specification words it: the lower-cased workflow field, the
  lower-cased truncated text or the lower-cased joined attachment lines contain the
  lower-cased filter.\<close>

definition spec_retained :: "string \<Rightarrow> ParsedBuild \<Rightarrow> bool" where
  "spec_retained F pb =
     (contains (toLowerCase (orEmpty (pb_workflow pb))) (toLowerCase F) \<or>
      contains (toLowerCase (pb_text pb)) (toLowerCase F) \<or>
      contains (toLowerCase (case pb_attachments pb of
                               None \<Rightarrow> []
                             | Some as \<Rightarrow> join '' '' (map attachmentLine as)))
               (toLowerCase F))"

text \<open>The names in the tool catalogue.\<close>

definition toolNames :: "string list" where
  "toolNames =
     [''check_build_status'', ''get_channel_messages'', ''search_messages'', ''send_message'',
      ''list_channels'']"

text \<open>\<open>binds n r\<close>: every match of \<open>r\<close> sets group \<open>n\<close>.\<close>

definition binds :: "nat \<Rightarrow> regex \<Rightarrow> bool" where
  "binds n r = (\<forall>st st'. st' \<in> set (matchR r st) \<longrightarrow> n \<in> fst ` set (snd (snd st')))"

section \<open>Sample inputs\<close>

text \<open>The timestamp conversion at the one Slack timestamp the samples use; a string that is
  not a number has no date. The samples use no other timestamp.\<close>

definition isoSample :: "string \<Rightarrow> string option" where
  "isoSample ts = (if ts = ''1700000000.123456'' then Some ''2023-11-14T22:13:20.123Z'' else None)"

definition titledAttachment :: Attachment where
  "titledAttachment = \<lparr>att_title = Some ''Nutri-E'', att_text = None, att_color = None\<rparr>"

definition msgTitled :: RawMessage where
  "msgTitled =
     \<lparr>msg_ts = ''1700000000.123456'', msg_text = Some ''hello'',
      msg_attachments = Some [titledAttachment], msg_user = None, msg_bot_id = None\<rparr>"

definition msgFailed :: RawMessage where
  "msgFailed =
     \<lparr>msg_ts = ''1700000000.123456'', msg_text = Some ''Nutri-E build failed'',
      msg_attachments = None, msg_user = None, msg_bot_id = Some ''B01''\<rparr>"

definition msgTook :: RawMessage where
  "msgTook =
     \<lparr>msg_ts = ''1700000000.123456'', msg_text = Some ''Workflow: Nutri-E, took 3 min 20 sec'',
      msg_attachments = Some [\<lparr>att_title = None, att_text = Some ''Archive - iOS'', att_color = Some ''good''\<rparr>],
      msg_user = None, msg_bot_id = Some ''B01''\<rparr>"

definition pbFailed :: ParsedBuild where
  "pbFailed =
     \<lparr>pb_timestamp = ''2023-11-14T22:13:20.123Z'', pb_status = ''failed'',
      pb_workflow = Some ''Nutri-E'', pb_duration = None, pb_text = ''Nutri-E build failed'',
      pb_attachments = None\<rparr>"

definition pbTook :: ParsedBuild where
  "pbTook =
     \<lparr>pb_timestamp = ''2023-11-14T22:13:20.123Z'', pb_status = ''unknown'',
      pb_workflow = Some ''Nutri-E'',
      pb_duration = Some \<lparr>minutes = 3, seconds = 20, totalSeconds = 200, formatted = ''3m 20s''\<rparr>,
      pb_text = ''Workflow: Nutri-E, took 3 min 20 sec'',
      pb_attachments = Some [\<lparr>att_title = None, att_text = Some ''Archive - iOS'', att_color = Some ''good''\<rparr>]\<rparr>"

text \<open>A client whose channel holds the two build messages, and whose other calls fail: the
  search for a missing scope, the rest for the network.\<close>

definition sampleSlack :: SlackClient where
  "sampleSlack =
     \<lparr>conversations_history = (\<lambda>channel limit. Inr (Some [msgFailed, msgTook])),
      search_messages = (\<lambda>query limit. Inl (JsError ''An API error occurred: missing_scope'' (Some ''missing_scope''))),
      chat_postMessage = (\<lambda>channel text. Inl (JsError ''network down'' None)),
      conversations_list = (\<lambda>limit. Inl (JsError ''network down'' None))\<rparr>"

text \<open>A message whose body has 621 characters and whose attachment text has 250.\<close>

definition msgLong :: RawMessage where
  "msgLong =
     \<lparr>msg_ts = ''1700000000.123456'',
      msg_text = Some (''Nutri-E build failed '' @ replicate 600 CHR ''x''),
      msg_attachments =
        Some [\<lparr>att_title = Some ''Nutri-E'', att_text = Some (replicate 250 CHR ''y''),
               att_color = None\<rparr>],
      msg_user = None, msg_bot_id = Some ''B01''\<rparr>"

text \<open>The sample client, with a second message in the channel whose timestamp has no date.\<close>

definition undatedSlack :: SlackClient where
  "undatedSlack =
     sampleSlack\<lparr>conversations_history :=
       (\<lambda>channel limit. Inr (Some [msgFailed, msgTook\<lparr>msg_ts := ''yesterday''\<rparr>]))\<rparr>"

definition noArgs :: Args where
  "noArgs = \<lparr>arg_limit = None, arg_workflow = None, arg_channel_id = None, arg_text = None, arg_query = None\<rparr>"

section \<open>Strings: substring search\<close>

lemma startsWith_iff: "startsWith s p \<longleftrightarrow> (\<exists>ss. s = p @ ss)"
  by (induction s p rule: startsWith.induct) auto

lemma includes_str_iff: "includes_str s sub \<longleftrightarrow> (\<exists>ps ss. s = ps @ sub @ ss)"
proof (induction s)
  case Nil
  then show ?case by auto
next
  case (Cons c cs)
  show ?case
  proof
    assume "includes_str (c # cs) sub"
    then consider "startsWith (c # cs) sub" | "includes_str cs sub" by auto
    then show "\<exists>ps ss. c # cs = ps @ sub @ ss"
    proof cases
      case 1
      then obtain ss where "c # cs = sub @ ss" by (auto simp: startsWith_iff)
      then have "c # cs = [] @ sub @ ss" by simp
      then show ?thesis by blast
    next
      case 2
      then obtain ps ss where "cs = ps @ sub @ ss" using Cons.IH by blast
      then have "c # cs = (c # ps) @ sub @ ss" by simp
      then show ?thesis by blast
    qed
  next
    assume "\<exists>ps ss. c # cs = ps @ sub @ ss"
    then obtain ps ss where eq: "c # cs = ps @ sub @ ss" by blast
    show "includes_str (c # cs) sub"
    proof (cases ps)
      case Nil
      with eq have "startsWith (c # cs) sub" by (auto simp: startsWith_iff)
      then show ?thesis by simp
    next
      case (Cons p ps')
      with eq have "cs = ps' @ sub @ ss" by simp
      then have "includes_str cs sub" using Cons.IH by blast
      then show ?thesis by simp
    qed
  qed
qed

lemma includes_lower_iff: "includes_str (toLowerCase t) kw \<longleftrightarrow> occurs_ci kw t"
proof
  assume "includes_str (toLowerCase t) kw"
  then obtain ps ss where "map lowerChar t = ps @ kw @ ss"
    by (auto simp: includes_str_iff toLowerCase_def)
  then obtain us vs where t: "t = us @ vs" and "kw @ ss = map lowerChar vs"
    by (auto simp: map_eq_append_conv)
  then obtain ms ws where "vs = ms @ ws" and "kw = map lowerChar ms"
    by (auto simp: append_eq_map_conv)
  with t show "occurs_ci kw t"
    unfolding occurs_ci_def toLowerCase_def by blast
next
  assume "occurs_ci kw t"
  then obtain ps ms ss where "t = ps @ ms @ ss" and "toLowerCase ms = kw"
    unfolding occurs_ci_def by blast
  then have "toLowerCase t = toLowerCase ps @ kw @ toLowerCase ss"
    by (auto simp: toLowerCase_def)
  then show "includes_str (toLowerCase t) kw"
    unfolding includes_str_iff by blast
qed

lemma includes_contains: "includes_str hay needle = contains hay needle"
  by (simp add: includes_str_iff contains_def)

lemma toLowerCase_Nil_iff: "toLowerCase s = [] \<longleftrightarrow> s = []"
  by (simp add: toLowerCase_def)

section \<open>Character classes\<close>

text \<open>Matching a class through the case variants of the input character is the rule of the
  language standard: the class has a member whose canonical form is that of the input.\<close>

lemma code_less: "code c < 256"
  unfolding code_def by (metis of_char_mod_256 mod_less_divisor zero_less_numeral)

lemma code_char_of: "n < 256 \<Longrightarrow> code (char_of n) = n"
  by (simp add: code_def)

lemma code_eq_iff: "code a = code c \<longleftrightarrow> a = c"
  by (simp add: code_def)

lemma caseVariants_canonical:
  "code a \<in> set (caseVariants c) \<longleftrightarrow> canonicalize a = canonicalize c"
  using code_less[of a] code_less[of c]
  unfolding caseVariants_def canonicalize_def Let_def isUpperCode_def isLowerCode_def
  by (auto split: if_splits)

lemma caseVariants_bound: "n \<in> set (caseVariants c) \<Longrightarrow> n < 256"
  using code_less[of c]
  unfolding caseVariants_def Let_def isUpperCode_def isLowerCode_def
  by (auto split: if_splits)

lemma classMatches_canonical:
  "classMatches A ch \<longleftrightarrow>
     (\<exists>a. list_ex (\<lambda>it. citem_has it (code a)) A \<and> canonicalize a = canonicalize ch)"
proof
  assume "classMatches A ch"
  then obtain n where n: "n \<in> set (caseVariants ch)" and h: "list_ex (\<lambda>it. citem_has it n) A"
    by (auto simp: classMatches_def list_ex_iff)
  from n have "n < 256" by (rule caseVariants_bound)
  then have c: "code (char_of n) = n" by (rule code_char_of)
  with n have "canonicalize (char_of n) = canonicalize ch"
    using caseVariants_canonical[of "char_of n" ch] by simp
  with h c show "\<exists>a. list_ex (\<lambda>it. citem_has it (code a)) A \<and> canonicalize a = canonicalize ch"
    by (intro exI[of _ "char_of n"]) simp
next
  assume "\<exists>a. list_ex (\<lambda>it. citem_has it (code a)) A \<and> canonicalize a = canonicalize ch"
  then obtain a where "list_ex (\<lambda>it. citem_has it (code a)) A" "canonicalize a = canonicalize ch"
    by blast
  then show "classMatches A ch"
    using caseVariants_canonical[of a ch] by (auto simp: classMatches_def list_ex_iff)
qed

section \<open>The status classifier\<close>

lemma classifyStatus_spec: "classifyStatus t = spec_classify t"
  by (simp add: classifyStatus_def Let_def spec_classify_def statusGroups_def includes_lower_iff)

text \<open>
  C1. The status classifier looks for the keyword groups succeeded/success, failed/failure,
  started/running, cancelled/canceled, ignoring case, in that order, and returns the status
  of the first group that occurs (unknown if none does). In particular a text in which
  "failed" and "running" occur, and neither "succeeded" nor "success", is classified as
  "failed". Occurrence is read with case ignored throughout, as the checks are.
\<close>

theorem classifyStatus_first_group:
  "classifyStatus t = spec_classify t \<and>
   (occurs_ci ''failed'' t \<and> occurs_ci ''running'' t \<and>
    \<not> occurs_ci ''succeeded'' t \<and> \<not> occurs_ci ''success'' t
      \<longrightarrow> classifyStatus t = ''failed'')"
  by (simp add: classifyStatus_spec) (simp add: spec_classify_def statusGroups_def)

theorem classifyStatus_first_group_witness:
  "occurs_ci ''failed'' ''Build FAILED while running tests'' \<and>
   occurs_ci ''running'' ''Build FAILED while running tests'' \<and>
   \<not> occurs_ci ''succeeded'' ''Build FAILED while running tests'' \<and>
   \<not> occurs_ci ''success'' ''Build FAILED while running tests'' \<and>
   classifyStatus ''Build FAILED while running tests'' = ''failed''"
proof -
  have a: "includes_str (toLowerCase ''Build FAILED while running tests'') ''failed''"
    by code_simp
  have b: "includes_str (toLowerCase ''Build FAILED while running tests'') ''running''"
    by code_simp
  have c: "\<not> includes_str (toLowerCase ''Build FAILED while running tests'') ''succeeded''"
    by code_simp
  have d: "\<not> includes_str (toLowerCase ''Build FAILED while running tests'') ''success''"
    by code_simp
  have e: "classifyStatus ''Build FAILED while running tests'' = ''failed''"
    using a b c d classifyStatus_first_group [of "''Build FAILED while running tests''"]
    unfolding includes_lower_iff by blast
  from a b c d e show ?thesis
    unfolding includes_lower_iff by blast
qed

section \<open>The workflow extractor\<close>

text \<open>
  C3, as the code has it. On the text "Workflow: Nutri-E build finished" without attachments
  (the list absent or empty) the workflow extractor returns "Nutri-E build finished": the
  group of the first pattern runs up to a line break or a comma, so it takes in the words
  after the name, and only the blank that ends the combined text is trimmed.
\<close>

theorem extractWorkflow_example:
  "extractWorkflow ''Workflow: Nutri-E build finished'' None = Inr (Some ''Nutri-E build finished'') \<and>
   extractWorkflow ''Workflow: Nutri-E build finished'' (Some []) = Inr (Some ''Nutri-E build finished'')"
  by code_simp

theorem extractWorkflow_example_counterexample:
  "extractWorkflow ''Workflow: Nutri-E build finished'' None \<noteq> Inr (Some ''Nutri-E'')"
  by code_simp

section \<open>The duration extractor\<close>

lemma firstDuration_find:
  "firstDuration ps s =
     (case find (\<lambda>p. regexMatch p s \<noteq> None) ps of
        None \<Rightarrow> None
      | Some p \<Rightarrow> map_option durationOf (regexMatch p s))"
  by (induction ps) (auto split: option.splits)

lemma firstDuration_none:
  "(\<forall>p \<in> set ps. regexMatch p s = None) \<Longrightarrow> firstDuration ps s = None"
  by (induction ps) auto

lemma firstDuration_first:
  "i < length ps \<Longrightarrow> \<forall>j < i. regexMatch (ps ! j) s = None \<Longrightarrow> regexMatch (ps ! i) s = Some m
     \<Longrightarrow> firstDuration ps s = Some (durationOf m)"
proof (induction ps arbitrary: i)
  case Nil
  then show ?case by simp
next
  case (Cons p ps)
  show ?case
  proof (cases i)
    case 0
    with Cons.prems show ?thesis by simp
  next
    case (Suc k)
    with Cons.prems have p: "regexMatch p s = None" by auto
    from Suc Cons.prems have "k < length ps" "\<forall>j < k. regexMatch (ps ! j) s = None"
      "regexMatch (ps ! k) s = Some m" by auto
    from Cons.IH[OF this] p show ?thesis by simp
  qed
qed

text \<open>
  C2. The duration extractor tries its five patterns in the order duration, took,
  completed in, bare minutes, colon format, and returns the duration read from the first
  one that matches the combined text; on "Build completed in 5 minutes 30 seconds" that is
  5 minutes, 30 seconds, 330 seconds in all, written "5m 30s"; when none of the five matches,
  the result is absent.
\<close>

theorem extractDuration_priority:
  "durationPatterns = [patDuration, patTook, patCompletedIn, patBareMin, patColon] \<and>
   (\<forall>i < length durationPatterns.
      (\<forall>j < i. regexMatch (durationPatterns ! j) (allText text attachments) = None) \<and>
      regexMatch (durationPatterns ! i) (allText text attachments) = Some m
      \<longrightarrow> extractDuration text attachments = Some (durationOf m)) \<and>
   extractDuration ''Build completed in 5 minutes 30 seconds'' None =
     Some \<lparr>minutes = 5, seconds = 30, totalSeconds = 330, formatted = ''5m 30s''\<rparr> \<and>
   ((\<forall>p \<in> set durationPatterns. regexMatch p (allText text attachments) = None)
      \<longrightarrow> extractDuration text attachments = None)"
proof (intro conjI)
  show "durationPatterns = [patDuration, patTook, patCompletedIn, patBareMin, patColon]"
    by (rule durationPatterns_def)
  show "\<forall>i < length durationPatterns.
      (\<forall>j < i. regexMatch (durationPatterns ! j) (allText text attachments) = None) \<and>
      regexMatch (durationPatterns ! i) (allText text attachments) = Some m
      \<longrightarrow> extractDuration text attachments = Some (durationOf m)"
    unfolding extractDuration_def using firstDuration_first by blast
  show "extractDuration ''Build completed in 5 minutes 30 seconds'' None =
     Some \<lparr>minutes = 5, seconds = 30, totalSeconds = 330, formatted = ''5m 30s''\<rparr>"
    by code_simp
  show "(\<forall>p \<in> set durationPatterns. regexMatch p (allText text attachments) = None)
      \<longrightarrow> extractDuration text attachments = None"
    unfolding extractDuration_def using firstDuration_none by blast
qed

theorem extractDuration_priority_witness:
  "regexMatch patDuration (allText ''Build completed in 5 minutes 30 seconds'' None) = None \<and>
   regexMatch patTook (allText ''Build completed in 5 minutes 30 seconds'' None) = None \<and>
   regexMatch patCompletedIn (allText ''Build completed in 5 minutes 30 seconds'' None)
     = Some [(2, ''30''), (1, ''5'')] \<and>
   extractDuration ''Build completed in 5 minutes 30 seconds'' None
     = Some (durationOf [(2, ''30''), (1, ''5'')]) \<and>
   regexMatch patDuration (allText ''Build started'' None) = None \<and>
   regexMatch patTook (allText ''Build started'' None) = None \<and>
   regexMatch patCompletedIn (allText ''Build started'' None) = None \<and>
   regexMatch patBareMin (allText ''Build started'' None) = None \<and>
   regexMatch patColon (allText ''Build started'' None) = None \<and>
   extractDuration ''Build started'' None = None"
proof -
  let ?t = "''Build completed in 5 minutes 30 seconds''"
  have a: "regexMatch patDuration (allText ?t None) = None" by code_simp
  have b: "regexMatch patTook (allText ?t None) = None" by code_simp
  have c: "regexMatch patCompletedIn (allText ?t None) = Some [(2, ''30''), (1, ''5'')]" by code_simp
  have len: "(2::nat) < length durationPatterns" by (simp add: durationPatterns_def)
  have before: "\<forall>j < (2::nat). regexMatch (durationPatterns ! j) (allText ?t None) = None"
    using a b by (auto simp: durationPatterns_def less_Suc_eq numeral_2_eq_2)
  have at: "regexMatch (durationPatterns ! 2) (allText ?t None) = Some [(2, ''30''), (1, ''5'')]"
    using c by (simp add: durationPatterns_def)
  have d: "extractDuration ?t None = Some (durationOf [(2, ''30''), (1, ''5'')])"
    using extractDuration_priority [of ?t None "[(2, ''30''), (1, ''5'')]"] len before at by blast
  have e1: "regexMatch patDuration (allText ''Build started'' None) = None" by code_simp
  have e2: "regexMatch patTook (allText ''Build started'' None) = None" by code_simp
  have e3: "regexMatch patCompletedIn (allText ''Build started'' None) = None" by code_simp
  have e4: "regexMatch patBareMin (allText ''Build started'' None) = None" by code_simp
  have e5: "regexMatch patColon (allText ''Build started'' None) = None" by code_simp
  from e1 e2 e3 e4 e5
  have e: "\<forall>p \<in> set durationPatterns. regexMatch p (allText ''Build started'' None) = None"
    by (simp add: durationPatterns_def)
  have f: "extractDuration ''Build started'' None = None"
    using extractDuration_priority [of "''Build started''" None] e by blast
  from a b c d e1 e2 e3 e4 e5 f show ?thesis by (intro conjI)
qed

section \<open>Captured groups\<close>

text \<open>A match never loses a group, and both workflow patterns set group 1: the
  \<^verbatim>\<open>match[1].trim()\<close> of the workflow extractor cannot throw.\<close>

lemma matchR_caps_grow:
  "st' \<in> set (matchR r st) \<Longrightarrow> set (snd (snd st)) \<subseteq> set (snd (snd st'))"
proof (induction r st arbitrary: st' rule: matchR.induct)
  case (6 r1 r2 st)
  from "6.prems" obtain x where x: "x \<in> set (matchR r1 st)" and s: "st' \<in> set (matchR r2 x)"
    by auto
  from "6.IH"(1)[OF x] "6.IH"(2)[OF x s] show ?case by blast
next
  case (7 r1 r2 st)
  then show ?case by fastforce
next
  case (8 r i cs caps)
  from "8.prems" consider "st' = (i, cs, caps)"
    | x where "x \<in> set (matchR r (i, cs, caps))" "length (fst (snd x)) < length cs"
        "st' \<in> set (matchR (Star r) x)"
    by (auto split: if_splits)
  then show ?case
  proof cases
    case 1
    then show ?thesis by simp
  next
    case 2
    from "8.IH"(1)[OF 2(1)] "8.IH"(2)[OF 2(1) 2(2) 2(3)] show ?thesis by auto
  qed
next
  case (9 r i cs caps)
  then show ?case by fastforce
next
  case (10 n r i cs caps)
  from "10.prems" obtain x where x: "x \<in> set (matchR r (i, cs, caps))"
    and "snd (snd st') = (n, take (fst x - i) cs) # snd (snd x)"
    by auto
  with "10.IH"[OF x] show ?case by auto
qed (auto split: list.splits if_splits)

lemma binds_Group: "binds n (Group n r)"
  unfolding binds_def by force

lemma binds_Seq_right: "binds n r2 \<Longrightarrow> binds n (Seq r1 r2)"
  unfolding binds_def by auto

lemma binds_Seq_left:
  assumes "binds n r1"
  shows "binds n (Seq r1 r2)"
  unfolding binds_def
proof (intro allI impI)
  fix st st'
  assume "st' \<in> set (matchR (Seq r1 r2) st)"
  then obtain x where x: "x \<in> set (matchR r1 st)" and s: "st' \<in> set (matchR r2 x)"
    by auto
  from assms x have "n \<in> fst ` set (snd (snd x))" unfolding binds_def by blast
  with matchR_caps_grow[OF s] show "n \<in> fst ` set (snd (snd st'))" by auto
qed

lemma binds_patWorkflowLabel: "binds 1 patWorkflowLabel"
  unfolding patWorkflowLabel_def seqs.simps
  by (rule binds_Seq_right, rule binds_Seq_right, rule binds_Group)

lemma binds_patLeadingName: "binds 1 patLeadingName"
  unfolding patLeadingName_def seqs.simps
  by (rule binds_Seq_right, rule binds_Seq_left, rule binds_Group)

lemma searchFrom_Some:
  "searchFrom r i cs = Some m \<Longrightarrow> \<exists>st j cs'. st \<in> set (matchR r (j, cs', [])) \<and> m = snd (snd st)"
proof (induction r i cs rule: searchFrom.induct)
  case (1 r i cs)
  show ?case
  proof (cases "matchR r (i, cs, [])")
    case Nil
    with "1.prems" obtain c cs' where cs: "cs = c # cs'" and "searchFrom r (Suc i) cs' = Some m"
      by (auto split: list.splits)
    with "1.IH"[OF Nil cs] show ?thesis by blast
  next
    case (Cons st sts)
    with "1.prems" have "m = snd (snd st)" by simp
    moreover from Cons have "st \<in> set (matchR r (i, cs, []))" by simp
    ultimately show ?thesis by blast
  qed
qed

lemma workflowPatterns_group1:
  assumes "p \<in> set workflowPatterns" and "regexMatch p s = Some m"
  shows "map_of m 1 \<noteq> None"
proof -
  from assms(2) obtain st j cs' where st: "st \<in> set (matchR p (j, cs', []))" and m: "m = snd (snd st)"
    unfolding regexMatch_def using searchFrom_Some by blast
  from assms(1) have "binds 1 p"
    using binds_patWorkflowLabel binds_patLeadingName by (auto simp: workflowPatterns_def)
  with st have "1 \<in> fst ` set (snd (snd st))" unfolding binds_def by blast
  with m show ?thesis by (simp add: map_of_eq_None_iff)
qed


section \<open>The message normaliser\<close>

lemma firstWorkflow_Inr:
  "set ps \<subseteq> set workflowPatterns \<Longrightarrow> \<exists>w. firstWorkflow ps s = Inr w"
proof (induction ps)
  case Nil
  then show ?case by simp
next
  case (Cons p ps)
  show ?case
  proof (cases "regexMatch p s")
    case None
    with Cons show ?thesis by simp
  next
    case (Some m)
    with Cons.prems workflowPatterns_group1[of p s m] show ?thesis by auto
  qed
qed

lemma firstWorkflow_none:
  "\<forall>p \<in> set ps. regexMatch p s = None \<Longrightarrow> firstWorkflow ps s = Inr None"
  by (induction ps) auto

lemma extractWorkflow_Inr: "\<exists>w. extractWorkflow text attachments = Inr w"
proof -
  obtain w where "firstWorkflow workflowPatterns (allText text attachments) = Inr w"
    using firstWorkflow_Inr[of workflowPatterns] by blast
  then show ?thesis by (cases w) (simp_all add: extractWorkflow_def)
qed

lemma extractWorkflow_fallback:
  "\<forall>p \<in> set workflowPatterns. regexMatch p (allText text attachments) = None
     \<Longrightarrow> extractWorkflow text attachments = Inr (titleFallback attachments)"
  by (simp add: extractWorkflow_def firstWorkflow_none)

lemma classifyStatus_unknown:
  "\<forall>g \<in> set statusGroups. \<forall>kw \<in> set (fst g). \<not> occurs_ci kw t \<Longrightarrow> classifyStatus t = ''unknown''"
  by (simp add: classifyStatus_def statusGroups_def includes_lower_iff)

lemma normalizeMessage_Inr:
  assumes "toISOString (msg_ts msg) = Some stamp"
  shows "\<exists>w. normalizeMessage toISOString msg =
           Inr \<lparr>pb_timestamp = stamp, pb_status = classifyStatus (orEmpty (msg_text msg)),
                pb_workflow = w,
                pb_duration = extractDuration (orEmpty (msg_text msg)) (msg_attachments msg),
                pb_text = take 500 (orEmpty (msg_text msg)),
                pb_attachments = map_option (map summarize) (msg_attachments msg)\<rparr> \<and>
           extractWorkflow (orEmpty (msg_text msg)) (msg_attachments msg) = Inr w"
proof -
  obtain w where "extractWorkflow (orEmpty (msg_text msg)) (msg_attachments msg) = Inr w"
    using extractWorkflow_Inr by blast
  with assms show ?thesis by (simp add: normalizeMessage_def Let_def)
qed

text \<open>
  C4, as the code has it. For every raw message, whatever its body text and attachment list
  (absent included), normalisation raises exactly when the timestamp has no date, and
  otherwise produces one ParsedBuild: its status is "unknown" when no status keyword occurs,
  its duration is absent when no duration pattern matches, and when no workflow pattern
  matches its workflow is the title of the first attachment if that title has between 1 and
  49 characters, and absent otherwise. The text never causes an error.
\<close>

theorem normalizeMessage_defaults:
  "(toISOString (msg_ts msg) = None \<longrightarrow>
      normalizeMessage toISOString msg = Inl (JsError ''Invalid time value'' None)) \<and>
   (toISOString (msg_ts msg) \<noteq> None \<longrightarrow>
      (\<exists>pb. normalizeMessage toISOString msg = Inr pb \<and>
         ((\<forall>g \<in> set statusGroups. \<forall>kw \<in> set (fst g). \<not> occurs_ci kw (orEmpty (msg_text msg)))
            \<longrightarrow> pb_status pb = ''unknown'') \<and>
         ((\<forall>p \<in> set durationPatterns.
              regexMatch p (allText (orEmpty (msg_text msg)) (msg_attachments msg)) = None)
            \<longrightarrow> pb_duration pb = None) \<and>
         ((\<forall>p \<in> set workflowPatterns.
              regexMatch p (allText (orEmpty (msg_text msg)) (msg_attachments msg)) = None)
            \<longrightarrow> pb_workflow pb = titleFallback (msg_attachments msg)))) \<and>
   titleFallback None = None \<and> titleFallback (Some []) = None \<and>
   (\<forall>a as. titleFallback (Some (a # as)) =
      (case att_title a of
         None \<Rightarrow> None
       | Some t \<Rightarrow> if 0 < length t \<and> length t < 50 then Some t else None))"
proof (intro conjI impI allI)
  assume "toISOString (msg_ts msg) = None"
  then show "normalizeMessage toISOString msg = Inl (JsError ''Invalid time value'' None)"
    by (simp add: normalizeMessage_def)
next
  assume "toISOString (msg_ts msg) \<noteq> None"
  then obtain stamp where "toISOString (msg_ts msg) = Some stamp" by blast
  from normalizeMessage_Inr[of toISOString msg stamp, OF this] obtain w pb where
    pb: "normalizeMessage toISOString msg = Inr pb"
    and st: "pb_status pb = classifyStatus (orEmpty (msg_text msg))"
    and du: "pb_duration pb = extractDuration (orEmpty (msg_text msg)) (msg_attachments msg)"
    and wf: "extractWorkflow (orEmpty (msg_text msg)) (msg_attachments msg) = Inr (pb_workflow pb)"
    by force
  have 1: "(\<forall>g \<in> set statusGroups. \<forall>kw \<in> set (fst g). \<not> occurs_ci kw (orEmpty (msg_text msg)))
            \<longrightarrow> pb_status pb = ''unknown''"
    using st classifyStatus_unknown by simp
  have 2: "(\<forall>p \<in> set durationPatterns.
              regexMatch p (allText (orEmpty (msg_text msg)) (msg_attachments msg)) = None)
            \<longrightarrow> pb_duration pb = None"
    using du firstDuration_none by (simp add: extractDuration_def)
  have 3: "(\<forall>p \<in> set workflowPatterns.
              regexMatch p (allText (orEmpty (msg_text msg)) (msg_attachments msg)) = None)
            \<longrightarrow> pb_workflow pb = titleFallback (msg_attachments msg)"
    using wf extractWorkflow_fallback by fastforce
  from pb 1 2 3 show "\<exists>pb. normalizeMessage toISOString msg = Inr pb \<and>
         ((\<forall>g \<in> set statusGroups. \<forall>kw \<in> set (fst g). \<not> occurs_ci kw (orEmpty (msg_text msg)))
            \<longrightarrow> pb_status pb = ''unknown'') \<and>
         ((\<forall>p \<in> set durationPatterns.
              regexMatch p (allText (orEmpty (msg_text msg)) (msg_attachments msg)) = None)
            \<longrightarrow> pb_duration pb = None) \<and>
         ((\<forall>p \<in> set workflowPatterns.
              regexMatch p (allText (orEmpty (msg_text msg)) (msg_attachments msg)) = None)
            \<longrightarrow> pb_workflow pb = titleFallback (msg_attachments msg))"
    by blast
next
  show "titleFallback None = None" by (simp add: titleFallback_def)
  show "titleFallback (Some []) = None" by (simp add: titleFallback_def)
  fix a as
  show "titleFallback (Some (a # as)) =
      (case att_title a of
         None \<Rightarrow> None
       | Some t \<Rightarrow> if 0 < length t \<and> length t < 50 then Some t else None)"
    by (auto simp: titleFallback_def split: option.splits)
qed


lemma msgTitled_no_keyword:
  "\<forall>g \<in> set statusGroups. \<forall>kw \<in> set (fst g). \<not> occurs_ci kw (orEmpty (msg_text msgTitled))"
  unfolding includes_lower_iff[symmetric] statusGroups_def msgTitled_def by code_simp

lemma msgTitled_no_duration:
  "\<forall>p \<in> set durationPatterns.
     regexMatch p (allText (orEmpty (msg_text msgTitled)) (msg_attachments msgTitled)) = None"
  by code_simp

lemma msgTitled_no_workflow:
  "\<forall>p \<in> set workflowPatterns.
     regexMatch p (allText (orEmpty (msg_text msgTitled)) (msg_attachments msgTitled)) = None"
  by code_simp

theorem normalizeMessage_defaults_witness:
  "isoSample (msg_ts msgTitled) \<noteq> None \<and>
   (\<exists>pb. normalizeMessage isoSample msgTitled = Inr pb \<and>
      pb_status pb = ''unknown'' \<and> pb_duration pb = None \<and> pb_workflow pb = Some ''Nutri-E'') \<and>
   isoSample (msg_ts (msgTitled\<lparr>msg_ts := ''yesterday''\<rparr>)) = None \<and>
   normalizeMessage isoSample (msgTitled\<lparr>msg_ts := ''yesterday''\<rparr>) =
     Inl (JsError ''Invalid time value'' None)"
proof -
  have a: "isoSample (msg_ts msgTitled) \<noteq> None" by code_simp
  have t: "titleFallback (msg_attachments msgTitled) = Some ''Nutri-E''" by code_simp
  have b: "isoSample (msg_ts (msgTitled\<lparr>msg_ts := ''yesterday''\<rparr>)) = None" by code_simp
  from normalizeMessage_defaults [of isoSample msgTitled, THEN conjunct2, THEN conjunct1, THEN mp, OF a]
  obtain pb where pb: "normalizeMessage isoSample msgTitled = Inr pb"
    and s: "(\<forall>g \<in> set statusGroups. \<forall>kw \<in> set (fst g). \<not> occurs_ci kw (orEmpty (msg_text msgTitled)))
            \<longrightarrow> pb_status pb = ''unknown''"
    and d: "(\<forall>p \<in> set durationPatterns.
              regexMatch p (allText (orEmpty (msg_text msgTitled)) (msg_attachments msgTitled)) = None)
            \<longrightarrow> pb_duration pb = None"
    and w: "(\<forall>p \<in> set workflowPatterns.
              regexMatch p (allText (orEmpty (msg_text msgTitled)) (msg_attachments msgTitled)) = None)
            \<longrightarrow> pb_workflow pb = titleFallback (msg_attachments msgTitled)"
    by (elim exE conjE)
  from s msgTitled_no_keyword have s': "pb_status pb = ''unknown''" by (rule mp)
  from d msgTitled_no_duration have d': "pb_duration pb = None" by (rule mp)
  from w msgTitled_no_workflow have "pb_workflow pb = titleFallback (msg_attachments msgTitled)"
    by (rule mp)
  with t have w': "pb_workflow pb = Some ''Nutri-E''" by simp
  from pb s' d' w'
  have c: "\<exists>pb. normalizeMessage isoSample msgTitled = Inr pb \<and>
      pb_status pb = ''unknown'' \<and> pb_duration pb = None \<and> pb_workflow pb = Some ''Nutri-E''"
    by (intro exI[of _ pb] conjI)
  from normalizeMessage_defaults [of isoSample "msgTitled\<lparr>msg_ts := ''yesterday''\<rparr>"] b
  have d: "normalizeMessage isoSample (msgTitled\<lparr>msg_ts := ''yesterday''\<rparr>) =
     Inl (JsError ''Invalid time value'' None)"
    by (elim conjE) (erule mp)
  from a b c d show ?thesis by (intro conjI)
qed

theorem normalizeMessage_defaults_counterexample:
  "regexMatch patWorkflowLabel (allText ''hello'' (Some [titledAttachment])) = None \<and>
   regexMatch patLeadingName (allText ''hello'' (Some [titledAttachment])) = None \<and>
   normalizeMessage isoSample msgTitled =
     Inr \<lparr>pb_timestamp = ''2023-11-14T22:13:20.123Z'', pb_status = ''unknown'',
          pb_workflow = Some ''Nutri-E'', pb_duration = None, pb_text = ''hello'',
          pb_attachments = Some [titledAttachment]\<rparr>"
  by code_simp


section \<open>Truncation and the source of the status\<close>

lemma normalizeMessage_fields:
  assumes "normalizeMessage toISOString msg = Inr pb"
  shows "pb_status pb = classifyStatus (orEmpty (msg_text msg)) \<and>
         pb_text pb = take 500 (orEmpty (msg_text msg)) \<and>
         pb_attachments pb = map_option (map summarize) (msg_attachments msg)"
proof (cases "toISOString (msg_ts msg)")
  case None
  with assms show ?thesis by (simp add: normalizeMessage_def)
next
  case (Some stamp)
  from normalizeMessage_Inr[of toISOString msg stamp, OF Some] assms show ?thesis by auto
qed

text \<open>
  C7. Every raw message whose timestamp has a date is normalised, whatever the lengths of
  its texts, to a ParsedBuild whose text is the first 500 characters of the body (so at most
  500 long), in which the text of each attachment is the first 200 characters of the
  attachment's text (so at most 200 long; absent when the attachment has none) and each title
  is passed through unchanged. The attachment list is absent when the message has none.
\<close>

theorem normalizeMessage_truncates:
  assumes "toISOString (msg_ts msg) = Some stamp"
  shows "\<exists>pb. normalizeMessage toISOString msg = Inr pb \<and>
           length (pb_text pb) \<le> 500 \<and>
           pb_text pb = take 500 (orEmpty (msg_text msg)) \<and>
           (case msg_attachments msg of
              None \<Rightarrow> pb_attachments pb = None
            | Some as \<Rightarrow>
                (\<exists>bs. pb_attachments pb = Some bs \<and> length bs = length as \<and>
                   (\<forall>i < length as.
                      att_title (bs ! i) = att_title (as ! i) \<and>
                      (case att_text (as ! i) of
                         None \<Rightarrow> att_text (bs ! i) = None
                       | Some t \<Rightarrow> att_text (bs ! i) = Some (take 200 t) \<and>
                                  length (take 200 t) \<le> 200))))"
proof -
  from normalizeMessage_Inr[of toISOString msg stamp, OF assms]
  obtain pb where pb: "normalizeMessage toISOString msg = Inr pb" by blast
  note f = normalizeMessage_fields[OF pb]
  have a: "length (pb_text pb) \<le> 500" using f by simp
  have b: "pb_text pb = take 500 (orEmpty (msg_text msg))" using f by simp
  have c: "(case msg_attachments msg of
            None \<Rightarrow> pb_attachments pb = None
          | Some as \<Rightarrow>
              (\<exists>bs. pb_attachments pb = Some bs \<and> length bs = length as \<and>
                 (\<forall>i < length as.
                    att_title (bs ! i) = att_title (as ! i) \<and>
                    (case att_text (as ! i) of
                       None \<Rightarrow> att_text (bs ! i) = None
                     | Some t \<Rightarrow> att_text (bs ! i) = Some (take 200 t) \<and>
                                length (take 200 t) \<le> 200))))"
  proof (cases "msg_attachments msg")
    case None
    with f show ?thesis by simp
  next
    case (Some as)
    with f have "pb_attachments pb = Some (map summarize as)" by simp
    then show ?thesis
      using Some by (auto simp: summarize_def split: option.splits)
  qed
  from pb a b c show ?thesis by (intro exI[of _ pb] conjI)
qed

theorem normalizeMessage_truncates_witness:
  "isoSample (msg_ts msgLong) = Some ''2023-11-14T22:13:20.123Z'' \<and>
   length (orEmpty (msg_text msgLong)) = 621 \<and>
   (\<exists>pb. normalizeMessage isoSample msgLong = Inr pb \<and>
      length (pb_text pb) = 500 \<and>
      pb_text pb = ''Nutri-E build failed '' @ replicate 479 CHR ''x'' \<and>
      (\<exists>bs. pb_attachments pb = Some bs \<and> length bs = 1 \<and>
         att_title (bs ! 0) = Some ''Nutri-E'' \<and>
         att_text (bs ! 0) = Some (replicate 200 CHR ''y'')))"
proof -
  have h: "isoSample (msg_ts msgLong) = Some ''2023-11-14T22:13:20.123Z''"
    by (simp add: isoSample_def msgLong_def)
  have l: "length (orEmpty (msg_text msgLong)) = 621"
    by (simp add: msgLong_def orEmpty_def)
  have t: "take 500 (orEmpty (msg_text msgLong)) = ''Nutri-E build failed '' @ replicate 479 CHR ''x''"
    by (simp add: msgLong_def orEmpty_def)
  have atts: "msg_attachments msgLong =
      Some [\<lparr>att_title = Some ''Nutri-E'', att_text = Some (replicate 250 CHR ''y''), att_color = None\<rparr>]"
    by (simp add: msgLong_def)
  from normalizeMessage_truncates [of isoSample msgLong "''2023-11-14T22:13:20.123Z''", OF h] obtain pb where
    pb: "normalizeMessage isoSample msgLong = Inr pb"
    and len: "length (pb_text pb) \<le> 500"
    and tk: "pb_text pb = take 500 (orEmpty (msg_text msgLong))"
    and att: "(case msg_attachments msgLong of
              None \<Rightarrow> pb_attachments pb = None
            | Some as \<Rightarrow>
                (\<exists>bs. pb_attachments pb = Some bs \<and> length bs = length as \<and>
                   (\<forall>i < length as.
                      att_title (bs ! i) = att_title (as ! i) \<and>
                      (case att_text (as ! i) of
                         None \<Rightarrow> att_text (bs ! i) = None
                       | Some t \<Rightarrow> att_text (bs ! i) = Some (take 200 t) \<and>
                                  length (take 200 t) \<le> 200))))"
    by (elim exE conjE)
  from tk t have tk': "pb_text pb = ''Nutri-E build failed '' @ replicate 479 CHR ''x''" by simp
  then have len': "length (pb_text pb) = 500" by simp
  from att obtain bs where bs: "pb_attachments pb = Some bs" and n: "length bs = 1"
    and ti: "att_title (bs ! 0) = Some ''Nutri-E''"
    and te: "att_text (bs ! 0) = Some (replicate 200 CHR ''y'')"
    unfolding atts by auto
  from bs n ti te have e: "\<exists>bs. pb_attachments pb = Some bs \<and> length bs = 1 \<and>
         att_title (bs ! 0) = Some ''Nutri-E'' \<and>
         att_text (bs ! 0) = Some (replicate 200 CHR ''y'')"
    by (intro exI[of _ bs] conjI)
  from pb len' tk' e have "\<exists>pb. normalizeMessage isoSample msgLong = Inr pb \<and>
      length (pb_text pb) = 500 \<and>
      pb_text pb = ''Nutri-E build failed '' @ replicate 479 CHR ''x'' \<and>
      (\<exists>bs. pb_attachments pb = Some bs \<and> length bs = 1 \<and>
         att_title (bs ! 0) = Some ''Nutri-E'' \<and>
         att_text (bs ! 0) = Some (replicate 200 CHR ''y''))"
    by (intro exI[of _ pb] conjI)
  with h l show ?thesis by (intro conjI)
qed

text \<open>
  C9. The build status is determined by the body text alone: two raw messages with the same
  body text get the same status from normalisation, whatever their attachments. Workflow and
  duration do depend on the attachments: the samples differ only in the attachment list.
\<close>

theorem status_from_body_only:
  "(msg_text m1 = msg_text m2 \<and>
    normalizeMessage toISOString m1 = Inr pb1 \<and> normalizeMessage toISOString m2 = Inr pb2
      \<longrightarrow> pb_status pb1 = pb_status pb2) \<and>
   extractWorkflow ''hello'' None = Inr None \<and>
   extractWorkflow ''hello'' (Some [titledAttachment]) = Inr (Some ''Nutri-E'') \<and>
   extractDuration ''hello'' None = None \<and>
   extractDuration ''hello'' (Some [\<lparr>att_title = None, att_text = Some ''took 2 min'', att_color = None\<rparr>])
     = Some \<lparr>minutes = 2, seconds = 0, totalSeconds = 120, formatted = ''2m 0s''\<rparr>"
proof (intro conjI impI)
  assume "msg_text m1 = msg_text m2 \<and>
    normalizeMessage toISOString m1 = Inr pb1 \<and> normalizeMessage toISOString m2 = Inr pb2"
  then show "pb_status pb1 = pb_status pb2"
    using normalizeMessage_fields[of toISOString m1 pb1] normalizeMessage_fields[of toISOString m2 pb2]
    by simp
next
  show "extractWorkflow ''hello'' None = Inr None" by code_simp
  show "extractWorkflow ''hello'' (Some [titledAttachment]) = Inr (Some ''Nutri-E'')" by code_simp
  show "extractDuration ''hello'' None = None" by code_simp
  show "extractDuration ''hello'' (Some [\<lparr>att_title = None, att_text = Some ''took 2 min'', att_color = None\<rparr>])
     = Some \<lparr>minutes = 2, seconds = 0, totalSeconds = 120, formatted = ''2m 0s''\<rparr>"
    by code_simp
qed

theorem status_from_body_only_witness:
  "msg_text msgFailed = msg_text (msgFailed\<lparr>msg_attachments := Some [titledAttachment]\<rparr>) \<and>
   normalizeMessage isoSample msgFailed = Inr pbFailed \<and>
   normalizeMessage isoSample (msgFailed\<lparr>msg_attachments := Some [titledAttachment]\<rparr>)
     = Inr (pbFailed\<lparr>pb_attachments := Some [titledAttachment]\<rparr>) \<and>
   pb_status pbFailed = pb_status (pbFailed\<lparr>pb_attachments := Some [titledAttachment]\<rparr>)"
proof -
  let ?m = "msgFailed\<lparr>msg_attachments := Some [titledAttachment]\<rparr>"
  let ?pb = "pbFailed\<lparr>pb_attachments := Some [titledAttachment]\<rparr>"
  have a: "msg_text msgFailed = msg_text ?m" by simp
  have b: "normalizeMessage isoSample msgFailed = Inr pbFailed" by code_simp
  have c: "normalizeMessage isoSample ?m = Inr ?pb" by code_simp
  from status_from_body_only [of msgFailed ?m isoSample pbFailed ?pb] a b c
  have d: "pb_status pbFailed = pb_status ?pb" by blast
  from a b c d show ?thesis by (intro conjI)
qed

section \<open>The filter and limit pipeline\<close>

lemma truthy_workflowFilter: "truthy (workflowFilter args) = truthy (arg_workflow args)"
  by (cases "arg_workflow args") (simp_all add: truthy_def workflowFilter_def toLowerCase_Nil_iff)

lemma matchesFilter_spec: "matchesFilter (toLowerCase F) pb = spec_retained F pb"
proof -
  have w: "orEmpty (map_option toLowerCase (pb_workflow pb)) = toLowerCase (orEmpty (pb_workflow pb))"
    by (cases "pb_workflow pb") (simp_all add: orEmpty_def toLowerCase_def)
  have a: "orEmpty (map_option (\<lambda>as. toLowerCase (join '' '' (map attachmentLine as))) (pb_attachments pb))
           = toLowerCase (case pb_attachments pb of None \<Rightarrow> [] | Some as \<Rightarrow> join '' '' (map attachmentLine as))"
    by (cases "pb_attachments pb") (simp_all add: orEmpty_def toLowerCase_def)
  show ?thesis
    unfolding matchesFilter_def spec_retained_def Let_def w a includes_contains ..
qed

lemma applyFilter_present:
  assumes "arg_workflow args = Some F" and "F \<noteq> []"
  shows "applyFilter args parsed = filter (spec_retained F) parsed"
proof -
  from assms have t: "truthy (workflowFilter args)"
    unfolding truthy_workflowFilter by (simp add: truthy_def)
  from assms have f: "orEmpty (workflowFilter args) = toLowerCase F"
    by (simp add: workflowFilter_def orEmpty_def)
  have "matchesFilter (toLowerCase F) = spec_retained F"
    by (rule ext) (rule matchesFilter_spec)
  with t f show ?thesis by (simp add: applyFilter_def)
qed

lemma slice0_nonneg: "0 \<le> k \<Longrightarrow> slice0 xs k = take (nat k) xs"
  by (simp add: slice0_def)

lemma checkBuildStatus_success:
  assumes "truthy buildChannelId"
    and "conversations_history slack (orEmpty buildChannelId) (fetchLimit args) = Inr (Some msgs)"
    and "msgs \<noteq> []"
    and "mapE (normalizeMessage toISOString) msgs = Inr parsed"
  shows "checkBuildStatus buildChannelId slack toISOString args =
           Inr (ok (BuildsJson (slice0 (applyFilter args parsed) (resultLimit args))
                      (if truthy (workflowFilter args) then arg_workflow args else None)
                      (length (slice0 (applyFilter args parsed) (resultLimit args)))))"
proof -
  from assms(3) obtain m ms where "msgs = m # ms" by (cases msgs) auto
  with assms(1,2,4) show ?thesis
    by (simp add: checkBuildStatus_def Let_def)
qed

text \<open>
  C5, as the code has it. When a workflow filter F is present and the limit L (the limit
  argument, 5 when absent or 0, at most 20) is not negative, and the build channel is
  configured and the source returns messages, not none, that are all normalised,
  check_build_status returns the first L, in source order, of exactly those ParsedBuild
  entries whose lower-cased workflow, lower-cased truncated text or lower-cased joined
  attachment lines contain the lower-cased F: never more than L entries, and all the
  survivors when fewer than L survive.
\<close>

theorem checkBuildStatus_filter_limit:
  assumes "arg_workflow args = Some F" and "F \<noteq> []"
    and "truthy buildChannelId"
    and "conversations_history slack (orEmpty buildChannelId) (fetchLimit args) = Inr (Some msgs)"
    and "msgs \<noteq> []"
    and "mapE (normalizeMessage toISOString) msgs = Inr parsed"
    and "0 \<le> resultLimit args"
  shows "\<exists>builds.
           checkBuildStatus buildChannelId slack toISOString args =
             Inr (ok (BuildsJson builds (Some F) (length builds))) \<and>
           builds = take (nat (resultLimit args)) (filter (spec_retained F) parsed) \<and>
           int (length builds) \<le> resultLimit args \<and>
           (int (length (filter (spec_retained F) parsed)) < resultLimit args
              \<longrightarrow> builds = filter (spec_retained F) parsed)"
proof -
  let ?builds = "take (nat (resultLimit args)) (filter (spec_retained F) parsed)"
  from assms(1,2) have t: "truthy (workflowFilter args)"
    unfolding truthy_workflowFilter by (simp add: truthy_def)
  have s: "slice0 (applyFilter args parsed) (resultLimit args) = ?builds"
    using assms(1,2,7) by (simp add: applyFilter_present slice0_nonneg)
  have 1: "checkBuildStatus buildChannelId slack toISOString args =
             Inr (ok (BuildsJson ?builds (Some F) (length ?builds)))"
    using checkBuildStatus_success[OF assms(3,4,5,6)] t assms(1) by (simp add: s)
  have 2: "int (length ?builds) \<le> resultLimit args"
    using assms(7) by simp
  have 3: "int (length (filter (spec_retained F) parsed)) < resultLimit args
              \<longrightarrow> ?builds = filter (spec_retained F) parsed"
    by simp
  from 1 2 3 show ?thesis by blast
qed

theorem checkBuildStatus_filter_limit_witness:
  "arg_workflow (noArgs\<lparr>arg_limit := Some 1, arg_workflow := Some ''NUTRI''\<rparr>) = Some ''NUTRI'' \<and>
   ''NUTRI'' \<noteq> [] \<and> truthy (Some ''C0123'') \<and>
   conversations_history sampleSlack (orEmpty (Some ''C0123''))
       (fetchLimit (noArgs\<lparr>arg_limit := Some 1, arg_workflow := Some ''NUTRI''\<rparr>))
     = Inr (Some [msgFailed, msgTook]) \<and>
   [msgFailed, msgTook] \<noteq> [] \<and>
   mapE (normalizeMessage isoSample) [msgFailed, msgTook] = Inr [pbFailed, pbTook] \<and>
   0 \<le> resultLimit (noArgs\<lparr>arg_limit := Some 1, arg_workflow := Some ''NUTRI''\<rparr>) \<and>
   filter (spec_retained ''NUTRI'') [pbFailed, pbTook] = [pbFailed, pbTook] \<and>
   checkBuildStatus (Some ''C0123'') sampleSlack isoSample
       (noArgs\<lparr>arg_limit := Some 1, arg_workflow := Some ''NUTRI''\<rparr>)
     = Inr (ok (BuildsJson [pbFailed] (Some ''NUTRI'') 1))"
proof -
  let ?A = "noArgs\<lparr>arg_limit := Some 1, arg_workflow := Some ''NUTRI''\<rparr>"
  have h1: "arg_workflow ?A = Some ''NUTRI''" by simp
  have h2: "''NUTRI'' \<noteq> []" by simp
  have h3: "truthy (Some ''C0123'')" by (simp add: truthy_def)
  have h4: "conversations_history sampleSlack (orEmpty (Some ''C0123'')) (fetchLimit ?A)
              = Inr (Some [msgFailed, msgTook])"
    by (simp add: sampleSlack_def)
  have h5: "[msgFailed, msgTook] \<noteq> []" by simp
  have h6: "mapE (normalizeMessage isoSample) [msgFailed, msgTook] = Inr [pbFailed, pbTook]"
    by code_simp
  have l: "resultLimit ?A = 1" by code_simp
  then have h7: "0 \<le> resultLimit ?A" by simp
  have f: "filter (spec_retained ''NUTRI'') [pbFailed, pbTook] = [pbFailed, pbTook]"
    unfolding matchesFilter_spec[symmetric] by code_simp
  from checkBuildStatus_filter_limit [OF h1 h2 h3 h4 h5 h6 h7]
  have "checkBuildStatus (Some ''C0123'') sampleSlack isoSample ?A =
          Inr (ok (BuildsJson (take (nat (resultLimit ?A)) (filter (spec_retained ''NUTRI'') [pbFailed, pbTook]))
                     (Some ''NUTRI'')
                     (length (take (nat (resultLimit ?A)) (filter (spec_retained ''NUTRI'') [pbFailed, pbTook])))))"
    by auto
  then have r: "checkBuildStatus (Some ''C0123'') sampleSlack isoSample ?A
                  = Inr (ok (BuildsJson [pbFailed] (Some ''NUTRI'') 1))"
    unfolding l f by simp
  from h1 h2 h3 h4 h5 h6 h7 f r show ?thesis by (intro conjI)
qed

theorem checkBuildStatus_filter_limit_counterexample:
  "resultLimit (noArgs\<lparr>arg_limit := Some (- 1), arg_workflow := Some ''NUTRI''\<rparr>) = - 1 \<and>
   checkBuildStatus (Some ''C0123'') sampleSlack isoSample
       (noArgs\<lparr>arg_limit := Some (- 1), arg_workflow := Some ''NUTRI''\<rparr>)
     = Inr (ok (BuildsJson [pbFailed] (Some ''NUTRI'') 1)) \<and>
   \<not> int (length [pbFailed]) \<le> resultLimit (noArgs\<lparr>arg_limit := Some (- 1), arg_workflow := Some ''NUTRI''\<rparr>)"
  by code_simp

lemma checkBuildStatus_history_only:
  "conversations_history slack (orEmpty buildChannelId) (fetchLimit args) =
     conversations_history slack' (orEmpty buildChannelId) (fetchLimit args)
   \<Longrightarrow> checkBuildStatus buildChannelId slack toISOString args =
       checkBuildStatus buildChannelId slack' toISOString args"
  by (simp add: checkBuildStatus_def)

text \<open>
  C6, as the code has it. With a workflow filter present check_build_status requests
  min(l * 4, 100) messages, where l is the limit argument, 5 when absent or 0, not clamped
  to 20; this is min(L * 4, 100) for the clamped L = min(l, 20) whenever l is at most 20.
  With no filter it requests exactly L messages. The handler reads the client only through
  the history call with that limit.
\<close>

theorem fetchLimit_requested:
  "(truthy (arg_workflow args) \<longrightarrow> fetchLimit args = min (orDefault (arg_limit args) 5 * 4) 100) \<and>
   (truthy (arg_workflow args) \<and> orDefault (arg_limit args) 5 \<le> 20
      \<longrightarrow> fetchLimit args = min (resultLimit args * 4) 100) \<and>
   (\<not> truthy (arg_workflow args) \<longrightarrow> fetchLimit args = resultLimit args) \<and>
   resultLimit args = min (orDefault (arg_limit args) 5) 20 \<and>
   orDefault None 5 = 5 \<and> orDefault (Some 0) 5 = 5 \<and>
   (conversations_history slack (orEmpty buildChannelId) (fetchLimit args) =
      conversations_history slack' (orEmpty buildChannelId) (fetchLimit args)
    \<longrightarrow> checkBuildStatus buildChannelId slack toISOString args =
        checkBuildStatus buildChannelId slack' toISOString args)"
  using checkBuildStatus_history_only [of slack buildChannelId args slack' toISOString]
  by (simp add: fetchLimit_def resultLimit_def truthy_workflowFilter orDefault_def)

theorem fetchLimit_requested_witness:
  "truthy (arg_workflow (noArgs\<lparr>arg_limit := Some 7, arg_workflow := Some ''NUTRI''\<rparr>)) \<and>
   orDefault (arg_limit (noArgs\<lparr>arg_limit := Some 7, arg_workflow := Some ''NUTRI''\<rparr>)) 5 \<le> 20 \<and>
   fetchLimit (noArgs\<lparr>arg_limit := Some 7, arg_workflow := Some ''NUTRI''\<rparr>) = 28 \<and>
   \<not> truthy (arg_workflow (noArgs\<lparr>arg_limit := Some 30\<rparr>)) \<and>
   fetchLimit (noArgs\<lparr>arg_limit := Some 30\<rparr>) = 20 \<and>
   fetchLimit (noArgs\<lparr>arg_limit := Some 30\<rparr>) = resultLimit (noArgs\<lparr>arg_limit := Some 30\<rparr>)"
proof -
  let ?A = "noArgs\<lparr>arg_limit := Some 7, arg_workflow := Some ''NUTRI''\<rparr>"
  let ?B = "noArgs\<lparr>arg_limit := Some 30\<rparr>"
  have a: "truthy (arg_workflow ?A)" by (simp add: truthy_def)
  have b: "orDefault (arg_limit ?A) 5 \<le> 20" by (simp add: orDefault_def)
  have l: "resultLimit ?A = 7" by (simp add: resultLimit_def orDefault_def)
  from fetchLimit_requested [of ?A] a b have "fetchLimit ?A = min (resultLimit ?A * 4) 100"
    by blast
  with l have c: "fetchLimit ?A = 28" by simp
  have d: "\<not> truthy (arg_workflow ?B)" by (simp add: truthy_def noArgs_def)
  have m: "resultLimit ?B = 20" by (simp add: resultLimit_def orDefault_def)
  from fetchLimit_requested [of ?B] d have e: "fetchLimit ?B = resultLimit ?B" by blast
  with m have f: "fetchLimit ?B = 20" by simp
  from a b c d e f show ?thesis by (intro conjI)
qed

theorem fetchLimit_requested_counterexample:
  "resultLimit (noArgs\<lparr>arg_limit := Some 25, arg_workflow := Some ''NUTRI''\<rparr>) = 20 \<and>
   min (resultLimit (noArgs\<lparr>arg_limit := Some 25, arg_workflow := Some ''NUTRI''\<rparr>) * 4) 100 = 80 \<and>
   fetchLimit (noArgs\<lparr>arg_limit := Some 25, arg_workflow := Some ''NUTRI''\<rparr>) = 100"
  by code_simp

section \<open>The dispatcher\<close>

lemma callTool_Inr:
  "handleTool b slack toISOString name args = Inr env \<Longrightarrow> callTool b slack toISOString name args = env"
  by (simp add: callTool_def)

lemma handleTool_unknown:
  "name \<notin> set toolNames \<Longrightarrow>
   handleTool b slack toISOString name args =
     Inr \<lparr>env_content = Plain (''Unknown tool: '' @ name), env_isError = Some True\<rparr>"
  by (simp add: handleTool_def toolNames_def)

lemma handleTool_names:
  "handleTool b slack toISOString ''check_build_status'' args = checkBuildStatus b slack toISOString args"
  "handleTool b slack toISOString ''get_channel_messages'' args = getChannelMessages b slack toISOString args"
  "handleTool b slack toISOString ''search_messages'' args = searchMessages slack toISOString args"
  "handleTool b slack toISOString ''send_message'' args = sendMessage b slack args"
  "handleTool b slack toISOString ''list_channels'' args = listChannels slack args"
  by (simp_all add: handleTool_def)

lemma callTool_caught:
  "handleTool b slack toISOString name args = Inl e \<Longrightarrow>
   callTool b slack toISOString name args = caught e"
  by (simp add: callTool_def caught_def)

lemma normalizeMessage_Inl:
  "normalizeMessage toISOString msg = Inl e \<Longrightarrow> e = JsError ''Invalid time value'' None"
proof (cases "toISOString (msg_ts msg)")
  case None
  assume "normalizeMessage toISOString msg = Inl e"
  with None show ?thesis by (simp add: normalizeMessage_def)
next
  case (Some stamp)
  assume "normalizeMessage toISOString msg = Inl e"
  with normalizeMessage_Inr[of toISOString msg stamp, OF Some] show ?thesis by auto
qed

lemma channelMessage_Inl:
  "channelMessage toISOString msg = Inl e \<Longrightarrow> e = JsError ''Invalid time value'' None"
  by (auto simp: channelMessage_def split: option.splits)

lemma searchHit_Inl:
  "searchHit toISOString m = Inl e \<Longrightarrow> e = JsError ''Invalid time value'' None"
  by (auto simp: searchHit_def split: option.splits)

lemma mapE_Inl_elem: "mapE f xs = Inl e \<Longrightarrow> \<exists>x \<in> set xs. f x = Inl e"
  by (induction xs) (auto split: sum.splits)

lemma mapE_throws:
  assumes "\<exists>x \<in> set xs. f x = Inl E" and "\<And>x e. f x = Inl e \<Longrightarrow> e = E"
  shows "mapE f xs = Inl E"
  using assms(1)
proof (induction xs)
  case Nil
  then show ?case by simp
next
  case (Cons x xs)
  show ?case
  proof (cases "f x")
    case (Inl e)
    with assms(2) show ?thesis by auto
  next
    case (Inr y)
    with Cons.prems have "\<exists>x \<in> set xs. f x = Inl E" by auto
    with Cons.IH Inr show ?thesis by simp
  qed
qed

lemma normalize_undated:
  "\<exists>m \<in> set msgs. toISOString (msg_ts m) = None \<Longrightarrow>
   mapE (normalizeMessage toISOString) msgs = Inl (JsError ''Invalid time value'' None)"
proof (rule mapE_throws)
  assume "\<exists>m \<in> set msgs. toISOString (msg_ts m) = None"
  then obtain m where m: "m \<in> set msgs" and "toISOString (msg_ts m) = None" by blast
  then have "normalizeMessage toISOString m = Inl (JsError ''Invalid time value'' None)"
    by (simp add: normalizeMessage_def)
  with m show "\<exists>m \<in> set msgs. normalizeMessage toISOString m = Inl (JsError ''Invalid time value'' None)"
    by blast
next
  fix x e
  assume "normalizeMessage toISOString x = Inl e"
  then show "e = JsError ''Invalid time value'' None" by (rule normalizeMessage_Inl)
qed

lemma channelMessage_undated:
  "\<exists>m \<in> set msgs. toISOString (msg_ts m) = None \<Longrightarrow>
   mapE (channelMessage toISOString) msgs = Inl (JsError ''Invalid time value'' None)"
proof (rule mapE_throws)
  assume "\<exists>m \<in> set msgs. toISOString (msg_ts m) = None"
  then obtain m where m: "m \<in> set msgs" and "toISOString (msg_ts m) = None" by blast
  then have "channelMessage toISOString m = Inl (JsError ''Invalid time value'' None)"
    by (simp add: channelMessage_def)
  with m show "\<exists>m \<in> set msgs. channelMessage toISOString m = Inl (JsError ''Invalid time value'' None)"
    by blast
next
  fix x e
  assume "channelMessage toISOString x = Inl e"
  then show "e = JsError ''Invalid time value'' None" by (rule channelMessage_Inl)
qed

lemma searchHit_undated:
  "\<exists>m \<in> set ms. toISOString (sm_ts m) = None \<Longrightarrow>
   mapE (searchHit toISOString) ms = Inl (JsError ''Invalid time value'' None)"
proof (rule mapE_throws)
  assume "\<exists>m \<in> set ms. toISOString (sm_ts m) = None"
  then obtain m where m: "m \<in> set ms" and "toISOString (sm_ts m) = None" by blast
  then have "searchHit toISOString m = Inl (JsError ''Invalid time value'' None)"
    by (simp add: searchHit_def)
  with m show "\<exists>m \<in> set ms. searchHit toISOString m = Inl (JsError ''Invalid time value'' None)"
    by blast
next
  fix x e
  assume "searchHit toISOString x = Inl e"
  then show "e = JsError ''Invalid time value'' None" by (rule searchHit_Inl)
qed

lemma checkBuildStatus_history_throws:
  "truthy b \<Longrightarrow> conversations_history slack (orEmpty b) (fetchLimit args) = Inl e \<Longrightarrow>
   checkBuildStatus b slack toISOString args = Inl e"
  by (simp add: checkBuildStatus_def)

lemma checkBuildStatus_undated:
  assumes "truthy b"
    and "conversations_history slack (orEmpty b) (fetchLimit args) = Inr (Some msgs)"
    and "\<exists>m \<in> set msgs. toISOString (msg_ts m) = None"
  shows "checkBuildStatus b slack toISOString args = Inl (JsError ''Invalid time value'' None)"
proof -
  from assms(3) obtain m ms where "msgs = m # ms" by (cases msgs) auto
  with assms(1,2) normalize_undated[OF assms(3)] show ?thesis
    by (simp add: checkBuildStatus_def)
qed

lemma getChannelMessages_history_throws:
  "truthy (channelOrDefault b args) \<Longrightarrow>
   conversations_history slack (orEmpty (channelOrDefault b args))
     (min (orDefault (arg_limit args) 10) 100) = Inl e \<Longrightarrow>
   getChannelMessages b slack toISOString args = Inl e"
  by (simp add: getChannelMessages_def)

lemma getChannelMessages_undated:
  assumes "truthy (channelOrDefault b args)"
    and "conversations_history slack (orEmpty (channelOrDefault b args))
           (min (orDefault (arg_limit args) 10) 100) = Inr (Some msgs)"
    and "\<exists>m \<in> set msgs. toISOString (msg_ts m) = None"
  shows "getChannelMessages b slack toISOString args = Inl (JsError ''Invalid time value'' None)"
  using assms(1,2) channelMessage_undated[OF assms(3)]
  by (simp add: getChannelMessages_def)

lemma searchMessages_throws:
  "truthy (arg_query args) \<Longrightarrow>
   search_messages slack (orEmpty (arg_query args)) (min (orDefault (arg_limit args) 10) 100) = Inl e \<Longrightarrow>
   err_data_error e \<noteq> Some ''missing_scope'' \<Longrightarrow>
   searchMessages slack toISOString args = Inl e"
  by (simp add: searchMessages_def searchBody_def)

lemma searchMessages_missing_scope:
  "truthy (arg_query args) \<Longrightarrow>
   search_messages slack (orEmpty (arg_query args)) (min (orDefault (arg_limit args) 10) 100) = Inl e \<Longrightarrow>
   err_data_error e = Some ''missing_scope'' \<Longrightarrow>
   searchMessages slack toISOString args =
     Inr (soft ''Error: Bot token missing 'search:read' scope. Add it in your Slack App settings.'')"
  by (simp add: searchMessages_def searchBody_def)

lemma searchMessages_undated:
  assumes "truthy (arg_query args)"
    and "search_messages slack (orEmpty (arg_query args)) (min (orDefault (arg_limit args) 10) 100)
           = Inr result"
    and "sr_matches result = Some ms"
    and "\<exists>m \<in> set ms. toISOString (sm_ts m) = None"
  shows "searchMessages slack toISOString args = Inl (JsError ''Invalid time value'' None)"
  using assms(1,2,3) searchHit_undated[OF assms(4)]
  by (simp add: searchMessages_def searchBody_def)

lemma sendMessage_throws:
  "truthy (channelOrDefault b args) \<Longrightarrow> truthy (arg_text args) \<Longrightarrow>
   chat_postMessage slack (orEmpty (channelOrDefault b args)) (orEmpty (arg_text args)) = Inl e \<Longrightarrow>
   sendMessage b slack args = Inl e"
  by (simp add: sendMessage_def)

lemma listChannels_throws:
  "conversations_list slack (min (orDefault (arg_limit args) 50) 200) = Inl e \<Longrightarrow>
   listChannels slack args = Inl e"
  by (simp add: listChannels_def)

lemma checkBuildStatus_Inl:
  assumes "checkBuildStatus b slack toISOString args = Inl e"
  shows "e = JsError ''Invalid time value'' None \<or> (\<exists>c n. conversations_history slack c n = Inl e)"
proof (cases "truthy b")
  case False
  with assms show ?thesis by (simp add: checkBuildStatus_def)
next
  case True
  show ?thesis
  proof (cases "conversations_history slack (orEmpty b) (fetchLimit args)")
    case (Inl e')
    with True assms have "e' = e" by (simp add: checkBuildStatus_def)
    with Inl show ?thesis by blast
  next
    case (Inr messages)
    show ?thesis
    proof (cases messages)
      case None
      with True Inr assms show ?thesis by (simp add: checkBuildStatus_def)
    next
      case (Some msgs)
      show ?thesis
      proof (cases msgs)
        case Nil
        with True Inr Some assms show ?thesis by (simp add: checkBuildStatus_def)
      next
        case (Cons m ms)
        with True Inr Some assms have "mapE (normalizeMessage toISOString) (m # ms) = Inl e"
          by (cases "mapE (normalizeMessage toISOString) (m # ms)")
             (simp_all add: checkBuildStatus_def Let_def)
        then obtain x where "normalizeMessage toISOString x = Inl e"
          using mapE_Inl_elem by blast
        then show ?thesis using normalizeMessage_Inl by blast
      qed
    qed
  qed
qed

lemma getChannelMessages_Inl:
  assumes "getChannelMessages b slack toISOString args = Inl e"
  shows "e = JsError ''Invalid time value'' None \<or> (\<exists>c n. conversations_history slack c n = Inl e)"
proof (cases "truthy (channelOrDefault b args)")
  case False
  with assms show ?thesis by (simp add: getChannelMessages_def)
next
  case True
  show ?thesis
  proof (cases "conversations_history slack (orEmpty (channelOrDefault b args))
                  (min (orDefault (arg_limit args) 10) 100)")
    case (Inl e')
    with True assms have "e' = e" by (simp add: getChannelMessages_def)
    with Inl show ?thesis by blast
  next
    case (Inr messages)
    with True assms
    have "mapE (channelMessage toISOString) (case messages of None \<Rightarrow> [] | Some ms \<Rightarrow> ms) = Inl e"
      by (cases "mapE (channelMessage toISOString) (case messages of None \<Rightarrow> [] | Some ms \<Rightarrow> ms)")
         (simp_all add: getChannelMessages_def)
    then obtain x where "channelMessage toISOString x = Inl e"
      using mapE_Inl_elem by blast
    then show ?thesis using channelMessage_Inl by blast
  qed
qed

lemma searchBody_Inl:
  assumes "searchBody slack toISOString query limit = Inl e"
  shows "e = JsError ''Invalid time value'' None \<or> search_messages slack query limit = Inl e"
proof (cases "search_messages slack query limit")
  case (Inl e')
  with assms show ?thesis by (simp add: searchBody_def)
next
  case (Inr result)
  with assms
  have "mapE (searchHit toISOString) (case sr_matches result of None \<Rightarrow> [] | Some ms \<Rightarrow> ms) = Inl e"
    by (cases "mapE (searchHit toISOString) (case sr_matches result of None \<Rightarrow> [] | Some ms \<Rightarrow> ms)")
       (simp_all add: searchBody_def)
  then obtain x where "searchHit toISOString x = Inl e"
    using mapE_Inl_elem by blast
  then show ?thesis using searchHit_Inl by blast
qed

lemma searchMessages_Inl:
  assumes "searchMessages slack toISOString args = Inl e"
  shows "e = JsError ''Invalid time value'' None \<or>
         (\<exists>q n. search_messages slack q n = Inl e \<and> err_data_error e \<noteq> Some ''missing_scope'')"
proof (cases "truthy (arg_query args)")
  case False
  with assms show ?thesis by (simp add: searchMessages_def)
next
  case True
  show ?thesis
  proof (cases "searchBody slack toISOString (orEmpty (arg_query args))
                  (min (orDefault (arg_limit args) 10) 100)")
    case (Inr env)
    with True assms show ?thesis by (simp add: searchMessages_def)
  next
    case (Inl e')
    show ?thesis
    proof (cases "err_data_error e' = Some ''missing_scope''")
      case True
      with \<open>truthy (arg_query args)\<close> Inl assms show ?thesis by (simp add: searchMessages_def)
    next
      case False
      with \<open>truthy (arg_query args)\<close> Inl assms have "e' = e" by (simp add: searchMessages_def)
      with Inl False searchBody_Inl[of slack toISOString _ _ e] show ?thesis by blast
    qed
  qed
qed

lemma sendMessage_Inl:
  assumes "sendMessage b slack args = Inl e"
  shows "\<exists>c t. chat_postMessage slack c t = Inl e"
proof (cases "truthy (channelOrDefault b args)")
  case False
  with assms show ?thesis by (simp add: sendMessage_def)
next
  case True
  show ?thesis
  proof (cases "truthy (arg_text args)")
    case False
    with True assms show ?thesis by (simp add: sendMessage_def)
  next
    case t: True
    show ?thesis
    proof (cases "chat_postMessage slack (orEmpty (channelOrDefault b args)) (orEmpty (arg_text args))")
      case (Inl e')
      with True t assms have "e' = e" by (simp add: sendMessage_def)
      with Inl show ?thesis by blast
    next
      case (Inr r)
      with True t assms show ?thesis by (simp add: sendMessage_def)
    qed
  qed
qed

lemma listChannels_Inl:
  assumes "listChannels slack args = Inl e"
  shows "\<exists>n. conversations_list slack n = Inl e"
proof (cases "conversations_list slack (min (orDefault (arg_limit args) 50) 200)")
  case (Inl e')
  with assms have "e' = e" by (simp add: listChannels_def)
  with Inl show ?thesis by blast
next
  case (Inr r)
  with assms show ?thesis by (simp add: listChannels_def)
qed

lemma handleTool_Inl:
  assumes "handleTool b slack toISOString name args = Inl e"
  shows "e = JsError ''Invalid time value'' None \<or>
         (\<exists>c n. conversations_history slack c n = Inl e) \<or>
         (\<exists>q n. search_messages slack q n = Inl e \<and> err_data_error e \<noteq> Some ''missing_scope'') \<or>
         (\<exists>c t. chat_postMessage slack c t = Inl e) \<or>
         (\<exists>n. conversations_list slack n = Inl e)"
proof (cases "name \<in> set toolNames")
  case False
  with assms show ?thesis by (simp add: handleTool_unknown)
next
  case True
  then have "name = ''check_build_status'' \<or> name = ''get_channel_messages'' \<or>
      name = ''search_messages'' \<or> name = ''send_message'' \<or> name = ''list_channels''"
    unfolding toolNames_def by (simp only: list.set insert_iff empty_iff simp_thms)
  then consider "name = ''check_build_status''" | "name = ''get_channel_messages''"
    | "name = ''search_messages''" | "name = ''send_message''" | "name = ''list_channels''"
    by (elim disjE)
  then show ?thesis
  proof cases
    case 1
    with assms have "checkBuildStatus b slack toISOString args = Inl e"
      by (simp add: handleTool_names)
    from checkBuildStatus_Inl[OF this] show ?thesis by blast
  next
    case 2
    with assms have "getChannelMessages b slack toISOString args = Inl e"
      by (simp add: handleTool_names)
    from getChannelMessages_Inl[OF this] show ?thesis by blast
  next
    case 3
    with assms have "searchMessages slack toISOString args = Inl e"
      by (simp add: handleTool_names)
    from searchMessages_Inl[OF this] show ?thesis by blast
  next
    case 4
    with assms have "sendMessage b slack args = Inl e"
      by (simp add: handleTool_names)
    from sendMessage_Inl[OF this] show ?thesis by blast
  next
    case 5
    with assms have "listChannels slack args = Inl e"
      by (simp add: handleTool_names)
    from listChannels_Inl[OF this] show ?thesis by blast
  qed
qed

text \<open>
  C8, as the code has it. Whatever is thrown while a tool call is handled is caught, and the
  call returns an envelope. The missing-scope failure of the search client is caught inside
  search_messages and answered with a fixed text and no error flag. Everything else that is
  thrown (a failure of any call of the client, in any tool, and the RangeError of a timestamp
  without a date; nothing else is) is caught by the dispatcher and returned as an envelope
  with the error flag set whose text is "Slack API error: " followed by the message of the
  exception. A call that does not throw returns its envelope, and an unknown tool name gives
  an envelope with the error flag set and the text "Unknown tool: " followed by the name.
\<close>

theorem callTool_catches:
  "caught e = \<lparr>env_content = Plain (''Slack API error: '' @ err_message e), env_isError = Some True\<rparr> \<and>
   (handleTool b slack toISOString name args = Inl e \<longrightarrow>
      callTool b slack toISOString name args = caught e \<and>
      (e = JsError ''Invalid time value'' None \<or>
       (\<exists>c n. conversations_history slack c n = Inl e) \<or>
       (\<exists>q n. search_messages slack q n = Inl e \<and> err_data_error e \<noteq> Some ''missing_scope'') \<or>
       (\<exists>c t. chat_postMessage slack c t = Inl e) \<or>
       (\<exists>n. conversations_list slack n = Inl e))) \<and>
   (handleTool b slack toISOString name args = Inr env \<longrightarrow>
      callTool b slack toISOString name args = env) \<and>
   (name \<notin> set toolNames \<longrightarrow>
      callTool b slack toISOString name args =
        \<lparr>env_content = Plain (''Unknown tool: '' @ name), env_isError = Some True\<rparr>) \<and>
   (truthy b \<and> conversations_history slack (orEmpty b) (fetchLimit args) = Inl e \<longrightarrow>
      callTool b slack toISOString ''check_build_status'' args = caught e) \<and>
   (truthy b \<and> conversations_history slack (orEmpty b) (fetchLimit args) = Inr (Some msgs) \<and>
    (\<exists>m \<in> set msgs. toISOString (msg_ts m) = None) \<longrightarrow>
      callTool b slack toISOString ''check_build_status'' args =
        caught (JsError ''Invalid time value'' None)) \<and>
   (truthy (channelOrDefault b args) \<and>
    conversations_history slack (orEmpty (channelOrDefault b args))
      (min (orDefault (arg_limit args) 10) 100) = Inl e \<longrightarrow>
      callTool b slack toISOString ''get_channel_messages'' args = caught e) \<and>
   (truthy (channelOrDefault b args) \<and>
    conversations_history slack (orEmpty (channelOrDefault b args))
      (min (orDefault (arg_limit args) 10) 100) = Inr (Some msgs) \<and>
    (\<exists>m \<in> set msgs. toISOString (msg_ts m) = None) \<longrightarrow>
      callTool b slack toISOString ''get_channel_messages'' args =
        caught (JsError ''Invalid time value'' None)) \<and>
   (truthy (arg_query args) \<and>
    search_messages slack (orEmpty (arg_query args)) (min (orDefault (arg_limit args) 10) 100) = Inl e \<and>
    err_data_error e \<noteq> Some ''missing_scope'' \<longrightarrow>
      callTool b slack toISOString ''search_messages'' args = caught e) \<and>
   (truthy (arg_query args) \<and>
    search_messages slack (orEmpty (arg_query args)) (min (orDefault (arg_limit args) 10) 100) = Inl e \<and>
    err_data_error e = Some ''missing_scope'' \<longrightarrow>
      callTool b slack toISOString ''search_messages'' args =
        soft ''Error: Bot token missing 'search:read' scope. Add it in your Slack App settings.'') \<and>
   (truthy (arg_query args) \<and>
    search_messages slack (orEmpty (arg_query args)) (min (orDefault (arg_limit args) 10) 100)
      = Inr result \<and>
    sr_matches result = Some hits \<and> (\<exists>m \<in> set hits. toISOString (sm_ts m) = None) \<longrightarrow>
      callTool b slack toISOString ''search_messages'' args =
        caught (JsError ''Invalid time value'' None)) \<and>
   (truthy (channelOrDefault b args) \<and> truthy (arg_text args) \<and>
    chat_postMessage slack (orEmpty (channelOrDefault b args)) (orEmpty (arg_text args)) = Inl e \<longrightarrow>
      callTool b slack toISOString ''send_message'' args = caught e) \<and>
   (conversations_list slack (min (orDefault (arg_limit args) 50) 200) = Inl e \<longrightarrow>
      callTool b slack toISOString ''list_channels'' args = caught e)"
proof (intro conjI impI)
  show "caught e = \<lparr>env_content = Plain (''Slack API error: '' @ err_message e), env_isError = Some True\<rparr>"
    by (rule caught_def)
next
  assume "handleTool b slack toISOString name args = Inl e"
  then show "callTool b slack toISOString name args = caught e"
    by (rule callTool_caught)
next
  assume "handleTool b slack toISOString name args = Inl e"
  then show "e = JsError ''Invalid time value'' None \<or>
       (\<exists>c n. conversations_history slack c n = Inl e) \<or>
       (\<exists>q n. search_messages slack q n = Inl e \<and> err_data_error e \<noteq> Some ''missing_scope'') \<or>
       (\<exists>c t. chat_postMessage slack c t = Inl e) \<or>
       (\<exists>n. conversations_list slack n = Inl e)"
    by (rule handleTool_Inl)
next
  assume "handleTool b slack toISOString name args = Inr env"
  then show "callTool b slack toISOString name args = env"
    by (rule callTool_Inr)
next
  assume "name \<notin> set toolNames"
  then show "callTool b slack toISOString name args =
        \<lparr>env_content = Plain (''Unknown tool: '' @ name), env_isError = Some True\<rparr>"
    by (simp add: callTool_def handleTool_unknown)
next
  assume "truthy b \<and> conversations_history slack (orEmpty b) (fetchLimit args) = Inl e"
  then show "callTool b slack toISOString ''check_build_status'' args = caught e"
    by (intro callTool_caught) (simp add: handleTool_names checkBuildStatus_history_throws)
next
  assume "truthy b \<and> conversations_history slack (orEmpty b) (fetchLimit args) = Inr (Some msgs) \<and>
    (\<exists>m \<in> set msgs. toISOString (msg_ts m) = None)"
  then show "callTool b slack toISOString ''check_build_status'' args =
        caught (JsError ''Invalid time value'' None)"
    by (intro callTool_caught) (simp add: handleTool_names checkBuildStatus_undated)
next
  assume "truthy (channelOrDefault b args) \<and>
    conversations_history slack (orEmpty (channelOrDefault b args))
      (min (orDefault (arg_limit args) 10) 100) = Inl e"
  then show "callTool b slack toISOString ''get_channel_messages'' args = caught e"
    by (intro callTool_caught) (simp add: handleTool_names getChannelMessages_history_throws)
next
  assume "truthy (channelOrDefault b args) \<and>
    conversations_history slack (orEmpty (channelOrDefault b args))
      (min (orDefault (arg_limit args) 10) 100) = Inr (Some msgs) \<and>
    (\<exists>m \<in> set msgs. toISOString (msg_ts m) = None)"
  then show "callTool b slack toISOString ''get_channel_messages'' args =
        caught (JsError ''Invalid time value'' None)"
    by (intro callTool_caught) (simp add: handleTool_names getChannelMessages_undated)
next
  assume "truthy (arg_query args) \<and>
    search_messages slack (orEmpty (arg_query args)) (min (orDefault (arg_limit args) 10) 100) = Inl e \<and>
    err_data_error e \<noteq> Some ''missing_scope''"
  then show "callTool b slack toISOString ''search_messages'' args = caught e"
    by (intro callTool_caught) (simp add: handleTool_names searchMessages_throws)
next
  assume "truthy (arg_query args) \<and>
    search_messages slack (orEmpty (arg_query args)) (min (orDefault (arg_limit args) 10) 100) = Inl e \<and>
    err_data_error e = Some ''missing_scope''"
  then show "callTool b slack toISOString ''search_messages'' args =
        soft ''Error: Bot token missing 'search:read' scope. Add it in your Slack App settings.''"
    by (intro callTool_Inr) (simp add: handleTool_names searchMessages_missing_scope)
next
  assume "truthy (arg_query args) \<and>
    search_messages slack (orEmpty (arg_query args)) (min (orDefault (arg_limit args) 10) 100)
      = Inr result \<and>
    sr_matches result = Some hits \<and> (\<exists>m \<in> set hits. toISOString (sm_ts m) = None)"
  then show "callTool b slack toISOString ''search_messages'' args =
        caught (JsError ''Invalid time value'' None)"
    by (intro callTool_caught) (simp add: handleTool_names searchMessages_undated)
next
  assume "truthy (channelOrDefault b args) \<and> truthy (arg_text args) \<and>
    chat_postMessage slack (orEmpty (channelOrDefault b args)) (orEmpty (arg_text args)) = Inl e"
  then show "callTool b slack toISOString ''send_message'' args = caught e"
    by (intro callTool_caught) (simp add: handleTool_names sendMessage_throws)
next
  assume "conversations_list slack (min (orDefault (arg_limit args) 50) 200) = Inl e"
  then show "callTool b slack toISOString ''list_channels'' args = caught e"
    by (intro callTool_caught) (simp add: handleTool_names listChannels_throws)
qed

theorem callTool_catches_witness:
  "conversations_list sampleSlack (min (orDefault (arg_limit noArgs) 50) 200)
     = Inl (JsError ''network down'' None) \<and>
   callTool None sampleSlack isoSample ''list_channels'' noArgs =
     \<lparr>env_content = Plain ''Slack API error: network down'', env_isError = Some True\<rparr> \<and>
   ''delete_channel'' \<notin> set toolNames \<and>
   callTool None sampleSlack isoSample ''delete_channel'' noArgs =
     \<lparr>env_content = Plain ''Unknown tool: delete_channel'', env_isError = Some True\<rparr> \<and>
   truthy (Some ''C0123'') \<and>
   conversations_history undatedSlack (orEmpty (Some ''C0123'')) (fetchLimit noArgs)
     = Inr (Some [msgFailed, msgTook\<lparr>msg_ts := ''yesterday''\<rparr>]) \<and>
   isoSample (msg_ts (msgTook\<lparr>msg_ts := ''yesterday''\<rparr>)) = None \<and>
   callTool (Some ''C0123'') undatedSlack isoSample ''check_build_status'' noArgs =
     \<lparr>env_content = Plain ''Slack API error: Invalid time value'', env_isError = Some True\<rparr> \<and>
   truthy (arg_query (noArgs\<lparr>arg_query := Some ''build failed''\<rparr>)) \<and>
   callTool None sampleSlack isoSample ''search_messages'' (noArgs\<lparr>arg_query := Some ''build failed''\<rparr>) =
     soft ''Error: Bot token missing 'search:read' scope. Add it in your Slack App settings.'' \<and>
   truthy (arg_text (noArgs\<lparr>arg_text := Some ''hello''\<rparr>)) \<and>
   callTool (Some ''C0123'') sampleSlack isoSample ''send_message'' (noArgs\<lparr>arg_text := Some ''hello''\<rparr>) =
     \<lparr>env_content = Plain ''Slack API error: network down'', env_isError = Some True\<rparr>"
proof -
  let ?down = "JsError ''network down'' None"
  let ?scope = "JsError ''An API error occurred: missing_scope'' (Some ''missing_scope'')"
  let ?range = "JsError ''Invalid time value'' None"
  let ?undated = "msgTook\<lparr>msg_ts := ''yesterday''\<rparr>"
  let ?q = "noArgs\<lparr>arg_query := Some ''build failed''\<rparr>"
  let ?t = "noArgs\<lparr>arg_text := Some ''hello''\<rparr>"
  have cd: "caught ?down =
      \<lparr>env_content = Plain ''Slack API error: network down'', env_isError = Some True\<rparr>"
    by (simp add: caught_def)
  have cr: "caught ?range =
      \<lparr>env_content = Plain ''Slack API error: Invalid time value'', env_isError = Some True\<rparr>"
    by (simp add: caught_def)
  have h1: "conversations_list sampleSlack (min (orDefault (arg_limit noArgs) 50) 200) = Inl ?down"
    by (simp add: sampleSlack_def)
  have c1: "callTool None sampleSlack isoSample ''list_channels'' noArgs = caught ?down"
    by (rule callTool_catches [where e = ?down and slack = sampleSlack and args = noArgs
                                  and b = None and toISOString = isoSample,
                                THEN conjunct2, THEN conjunct2, THEN conjunct2, THEN conjunct2, THEN conjunct2, THEN conjunct2, THEN conjunct2, THEN conjunct2, THEN conjunct2, THEN conjunct2, THEN conjunct2, THEN conjunct2, THEN mp])
       (rule h1)
  have h2: "''delete_channel'' \<notin> set toolNames" by (simp add: toolNames_def)
  have c2: "callTool None sampleSlack isoSample ''delete_channel'' noArgs =
      \<lparr>env_content = Plain ''Unknown tool: delete_channel'', env_isError = Some True\<rparr>"
    using callTool_catches [where name = "''delete_channel''" and slack = sampleSlack
                               and args = noArgs and b = None and toISOString = isoSample,
                             THEN conjunct2, THEN conjunct2, THEN conjunct2, THEN conjunct1, THEN mp, OF h2]
    by simp
  have h3: "truthy (Some ''C0123'')" by (simp add: truthy_def)
  have h4: "conversations_history undatedSlack (orEmpty (Some ''C0123'')) (fetchLimit noArgs)
      = Inr (Some [msgFailed, ?undated])"
    by (simp add: undatedSlack_def)
  have h5: "isoSample (msg_ts ?undated) = None" by (simp add: isoSample_def)
  then have h5': "\<exists>m \<in> set [msgFailed, ?undated]. isoSample (msg_ts m) = None" by simp
  have c3: "callTool (Some ''C0123'') undatedSlack isoSample ''check_build_status'' noArgs = caught ?range"
    by (rule callTool_catches [where b = "Some ''C0123''" and slack = undatedSlack and args = noArgs
                                  and toISOString = isoSample and msgs = "[msgFailed, ?undated]",
                                THEN conjunct2, THEN conjunct2, THEN conjunct2, THEN conjunct2, THEN conjunct2, THEN conjunct1, THEN mp])
       (intro conjI h3 h4 h5')
  have h6: "truthy (arg_query ?q)" by (simp add: truthy_def)
  have h7: "search_messages sampleSlack (orEmpty (arg_query ?q)) (min (orDefault (arg_limit ?q) 10) 100)
      = Inl ?scope"
    by (simp add: sampleSlack_def)
  have h8: "err_data_error ?scope = Some ''missing_scope''" by simp
  have c4: "callTool None sampleSlack isoSample ''search_messages'' ?q =
      soft ''Error: Bot token missing 'search:read' scope. Add it in your Slack App settings.''"
    by (rule callTool_catches [where e = ?scope and slack = sampleSlack and args = ?q
                                  and b = None and toISOString = isoSample,
                                THEN conjunct2, THEN conjunct2, THEN conjunct2, THEN conjunct2, THEN conjunct2, THEN conjunct2, THEN conjunct2, THEN conjunct2, THEN conjunct2, THEN conjunct1, THEN mp])
       (intro conjI h6 h7 h8)
  have h9: "truthy (arg_text ?t)" by (simp add: truthy_def)
  have h10: "truthy (channelOrDefault (Some ''C0123'') ?t)"
    by (simp add: truthy_def channelOrDefault_def noArgs_def)
  have h11: "chat_postMessage sampleSlack (orEmpty (channelOrDefault (Some ''C0123'') ?t))
      (orEmpty (arg_text ?t)) = Inl ?down"
    by (simp add: sampleSlack_def)
  have c5: "callTool (Some ''C0123'') sampleSlack isoSample ''send_message'' ?t = caught ?down"
    by (rule callTool_catches [where e = ?down and slack = sampleSlack and args = ?t
                                  and b = "Some ''C0123''" and toISOString = isoSample,
                                THEN conjunct2, THEN conjunct2, THEN conjunct2, THEN conjunct2, THEN conjunct2, THEN conjunct2, THEN conjunct2, THEN conjunct2, THEN conjunct2, THEN conjunct2, THEN conjunct2, THEN conjunct1, THEN mp])
       (intro conjI h10 h9 h11)
  from h1 c1 h2 c2 h3 h4 h5 c3 h6 c4 h9 c5 show ?thesis
    unfolding cd cr by (intro conjI)
qed

theorem callTool_catches_counterexample:
  "handleTool None sampleSlack isoSample ''list_channels'' noArgs = Inl (JsError ''network down'' None) \<and>
   env_content (callTool None sampleSlack isoSample ''list_channels'' noArgs)
     = Plain ''Slack API error: network down'' \<and>
   env_content (callTool None sampleSlack isoSample ''list_channels'' noArgs)
     \<noteq> Plain (err_message (JsError ''network down'' None)) \<and>
   search_messages sampleSlack ''build failed'' 10
     = Inl (JsError ''An API error occurred: missing_scope'' (Some ''missing_scope'')) \<and>
   callTool None sampleSlack isoSample ''search_messages'' (noArgs\<lparr>arg_query := Some ''build failed''\<rparr>)
     = \<lparr>env_content =
          Plain ''Error: Bot token missing 'search:read' scope. Add it in your Slack App settings.'',
        env_isError = None\<rparr>"
  by code_simp

lemma isError_soft: "env_isError (soft s) = None"
  by (simp add: soft_def)

lemma isError_ok: "env_isError (ok p) = None"
  by (simp add: ok_def)

lemma checkBuildStatus_unflagged:
  assumes "checkBuildStatus b slack toISOString args = Inr env"
  shows "env_isError env = None"
proof (cases "truthy b")
  case False
  with assms show ?thesis by (auto simp: checkBuildStatus_def isError_soft)
next
  case True
  show ?thesis
  proof (cases "conversations_history slack (orEmpty b) (fetchLimit args)")
    case (Inl e)
    with True assms show ?thesis by (simp add: checkBuildStatus_def)
  next
    case (Inr messages)
    show ?thesis
    proof (cases messages)
      case None
      with True Inr assms show ?thesis by (auto simp: checkBuildStatus_def isError_soft)
    next
      case (Some msgs)
      show ?thesis
      proof (cases msgs)
        case Nil
        with True Inr Some assms show ?thesis by (auto simp: checkBuildStatus_def isError_soft)
      next
        case (Cons m ms)
        with True Inr Some assms show ?thesis
          by (cases "mapE (normalizeMessage toISOString) (m # ms)")
             (auto simp: checkBuildStatus_def Let_def isError_ok)
      qed
    qed
  qed
qed

lemma getChannelMessages_unflagged:
  assumes "getChannelMessages b slack toISOString args = Inr env"
  shows "env_isError env = None"
proof (cases "truthy (channelOrDefault b args)")
  case False
  with assms show ?thesis by (auto simp: getChannelMessages_def isError_soft)
next
  case True
  with assms show ?thesis
    by (auto simp: getChannelMessages_def isError_ok split: sum.splits)
qed

lemma searchBody_unflagged:
  "searchBody slack toISOString query limit = Inr env \<Longrightarrow> env_isError env = None"
  by (auto simp: searchBody_def isError_ok split: sum.splits)

lemma searchMessages_unflagged:
  assumes "searchMessages slack toISOString args = Inr env"
  shows "env_isError env = None"
proof (cases "truthy (arg_query args)")
  case False
  with assms show ?thesis by (auto simp: searchMessages_def isError_soft)
next
  case True
  show ?thesis
  proof (cases "searchBody slack toISOString (orEmpty (arg_query args))
                  (min (orDefault (arg_limit args) 10) 100)")
    case (Inr env')
    with True assms have "env' = env" by (simp add: searchMessages_def)
    with Inr show ?thesis by (simp add: searchBody_unflagged)
  next
    case (Inl error)
    with True assms show ?thesis
      by (cases "err_data_error error = Some ''missing_scope''")
         (auto simp: searchMessages_def isError_soft)
  qed
qed

lemma sendMessage_unflagged:
  assumes "sendMessage b slack args = Inr env"
  shows "env_isError env = None"
proof (cases "truthy (channelOrDefault b args)")
  case False
  with assms show ?thesis by (auto simp: sendMessage_def isError_soft)
next
  case True
  show ?thesis
  proof (cases "truthy (arg_text args)")
    case False
    with True assms show ?thesis by (auto simp: sendMessage_def isError_soft)
  next
    case t: True
    with True assms show ?thesis
      by (auto simp: sendMessage_def isError_ok split: sum.splits)
  qed
qed

lemma listChannels_unflagged:
  "listChannels slack args = Inr env \<Longrightarrow> env_isError env = None"
  by (auto simp: listChannels_def isError_ok split: sum.splits)

lemma handleTool_unflagged:
  assumes "name \<in> set toolNames" and "handleTool b slack toISOString name args = Inr env"
  shows "env_isError env = None"
proof -
  from assms(1) have "name = ''check_build_status'' \<or> name = ''get_channel_messages'' \<or>
      name = ''search_messages'' \<or> name = ''send_message'' \<or> name = ''list_channels''"
    unfolding toolNames_def by (simp only: list.set insert_iff empty_iff simp_thms)
  then consider "name = ''check_build_status''" | "name = ''get_channel_messages''"
    | "name = ''search_messages''" | "name = ''send_message''" | "name = ''list_channels''"
    by (elim disjE)
  then show ?thesis
  proof cases
    case 1
    with assms(2) show ?thesis by (simp add: handleTool_names checkBuildStatus_unflagged)
  next
    case 2
    with assms(2) show ?thesis by (simp add: handleTool_names getChannelMessages_unflagged)
  next
    case 3
    with assms(2) show ?thesis by (simp add: handleTool_names searchMessages_unflagged)
  next
    case 4
    with assms(2) show ?thesis by (simp add: handleTool_names sendMessage_unflagged)
  next
    case 5
    with assms(2) show ?thesis by (simp add: handleTool_names listChannels_unflagged)
  qed
qed

text \<open>
  C10. The errors handled inside the tool handlers come back with no error flag:
  check_build_status without a build channel, search_messages without a query, send_message
  without a channel or without a text, and the missing-scope failure of the search. So does
  every envelope a known tool returns without throwing, successes included, whereas the
  envelopes for an unknown tool and for a caught exception carry the flag: the flag does not
  tell a soft error from a success.
\<close>

theorem soft_errors_unflagged:
  "(\<not> truthy b \<longrightarrow>
      callTool b slack toISOString ''check_build_status'' args =
        soft ''Error: SLACK_BUILD_CHANNEL_ID not configured. Please set it in your MCP config.'') \<and>
   (\<not> truthy (arg_query args) \<longrightarrow>
      callTool b slack toISOString ''search_messages'' args = soft ''Error: query parameter is required'') \<and>
   (\<not> truthy (channelOrDefault b args) \<longrightarrow>
      callTool b slack toISOString ''send_message'' args =
        soft ''Error: No channel_id provided and SLACK_BUILD_CHANNEL_ID not configured.'') \<and>
   (truthy (channelOrDefault b args) \<and> \<not> truthy (arg_text args) \<longrightarrow>
      callTool b slack toISOString ''send_message'' args = soft ''Error: text parameter is required'') \<and>
   (truthy (arg_query args) \<and>
    search_messages slack (orEmpty (arg_query args)) (min (orDefault (arg_limit args) 10) 100) = Inl e \<and>
    err_data_error e = Some ''missing_scope'' \<longrightarrow>
      callTool b slack toISOString ''search_messages'' args =
        soft ''Error: Bot token missing 'search:read' scope. Add it in your Slack App settings.'') \<and>
   env_isError (soft s) = None \<and>
   (name \<in> set toolNames \<and> handleTool b slack toISOString name args = Inr env \<longrightarrow>
      env_isError (callTool b slack toISOString name args) = None) \<and>
   (name \<notin> set toolNames \<longrightarrow> env_isError (callTool b slack toISOString name args) = Some True) \<and>
   (handleTool b slack toISOString name args = Inl e' \<longrightarrow>
      env_isError (callTool b slack toISOString name args) = Some True)"
proof (intro conjI impI)
  assume "\<not> truthy b"
  then show "callTool b slack toISOString ''check_build_status'' args =
        soft ''Error: SLACK_BUILD_CHANNEL_ID not configured. Please set it in your MCP config.''"
    by (simp add: callTool_def handleTool_names checkBuildStatus_def)
next
  assume "\<not> truthy (arg_query args)"
  then show "callTool b slack toISOString ''search_messages'' args = soft ''Error: query parameter is required''"
    by (simp add: callTool_def handleTool_names searchMessages_def)
next
  assume "\<not> truthy (channelOrDefault b args)"
  then show "callTool b slack toISOString ''send_message'' args =
        soft ''Error: No channel_id provided and SLACK_BUILD_CHANNEL_ID not configured.''"
    by (simp add: callTool_def handleTool_names sendMessage_def)
next
  assume "truthy (channelOrDefault b args) \<and> \<not> truthy (arg_text args)"
  then show "callTool b slack toISOString ''send_message'' args = soft ''Error: text parameter is required''"
    by (simp add: callTool_def handleTool_names sendMessage_def)
next
  assume "truthy (arg_query args) \<and>
    search_messages slack (orEmpty (arg_query args)) (min (orDefault (arg_limit args) 10) 100) = Inl e \<and>
    err_data_error e = Some ''missing_scope''"
  then show "callTool b slack toISOString ''search_messages'' args =
        soft ''Error: Bot token missing 'search:read' scope. Add it in your Slack App settings.''"
    by (simp add: callTool_def handleTool_names searchMessages_def searchBody_def)
next
  show "env_isError (soft s) = None" by (rule isError_soft)
next
  assume "name \<in> set toolNames \<and> handleTool b slack toISOString name args = Inr env"
  then show "env_isError (callTool b slack toISOString name args) = None"
    using handleTool_unflagged[of name b slack toISOString args env] by (simp add: callTool_def)
next
  assume "name \<notin> set toolNames"
  then show "env_isError (callTool b slack toISOString name args) = Some True"
    by (simp add: callTool_def handleTool_unknown)
next
  assume "handleTool b slack toISOString name args = Inl e'"
  then show "env_isError (callTool b slack toISOString name args) = Some True"
    by (simp add: callTool_def)
qed

theorem soft_errors_unflagged_witness:
  "\<not> truthy None \<and>
   callTool None sampleSlack isoSample ''check_build_status'' noArgs =
     soft ''Error: SLACK_BUILD_CHANNEL_ID not configured. Please set it in your MCP config.'' \<and>
   \<not> truthy (arg_query noArgs) \<and>
   callTool None sampleSlack isoSample ''search_messages'' noArgs = soft ''Error: query parameter is required'' \<and>
   \<not> truthy (channelOrDefault None noArgs) \<and>
   callTool None sampleSlack isoSample ''send_message'' noArgs =
     soft ''Error: No channel_id provided and SLACK_BUILD_CHANNEL_ID not configured.'' \<and>
   truthy (channelOrDefault (Some ''C0123'') noArgs) \<and> \<not> truthy (arg_text noArgs) \<and>
   callTool (Some ''C0123'') sampleSlack isoSample ''send_message'' noArgs =
     soft ''Error: text parameter is required'' \<and>
   truthy (arg_query (noArgs\<lparr>arg_query := Some ''build failed''\<rparr>)) \<and>
   callTool None sampleSlack isoSample ''search_messages'' (noArgs\<lparr>arg_query := Some ''build failed''\<rparr>) =
     soft ''Error: Bot token missing 'search:read' scope. Add it in your Slack App settings.'' \<and>
   ''check_build_status'' \<in> set toolNames \<and>
   handleTool (Some ''C0123'') sampleSlack isoSample ''check_build_status'' noArgs =
     Inr (ok (BuildsJson [pbFailed, pbTook] None 2)) \<and>
   env_isError (callTool (Some ''C0123'') sampleSlack isoSample ''check_build_status'' noArgs) = None \<and>
   ''delete_channel'' \<notin> set toolNames \<and>
   env_isError (callTool None sampleSlack isoSample ''delete_channel'' noArgs) = Some True \<and>
   handleTool None sampleSlack isoSample ''list_channels'' noArgs = Inl (JsError ''network down'' None) \<and>
   env_isError (callTool None sampleSlack isoSample ''list_channels'' noArgs) = Some True"
proof -
  let ?q = "noArgs\<lparr>arg_query := Some ''build failed''\<rparr>"
  let ?e = "JsError ''An API error occurred: missing_scope'' (Some ''missing_scope'')"
  have h1: "\<not> truthy None" by (simp add: truthy_def)
  have h2: "\<not> truthy (arg_query noArgs)" by (simp add: truthy_def noArgs_def)
  have h3: "\<not> truthy (channelOrDefault None noArgs)"
    by (simp add: truthy_def noArgs_def channelOrDefault_def)
  have h4: "truthy (channelOrDefault (Some ''C0123'') noArgs) \<and> \<not> truthy (arg_text noArgs)"
    by (simp add: truthy_def noArgs_def channelOrDefault_def)
  have h5: "truthy (arg_query ?q) \<and>
      search_messages sampleSlack (orEmpty (arg_query ?q)) (min (orDefault (arg_limit ?q) 10) 100) = Inl ?e \<and>
      err_data_error ?e = Some ''missing_scope''"
    by (simp add: truthy_def sampleSlack_def)
  have h6: "''check_build_status'' \<in> set toolNames" by (simp add: toolNames_def)
  have h7: "handleTool (Some ''C0123'') sampleSlack isoSample ''check_build_status'' noArgs =
     Inr (ok (BuildsJson [pbFailed, pbTook] None 2))"
    by code_simp
  have h8: "''delete_channel'' \<notin> set toolNames" by (simp add: toolNames_def)
  have h9: "handleTool None sampleSlack isoSample ''list_channels'' noArgs = Inl (JsError ''network down'' None)"
    by code_simp
  note t1 = soft_errors_unflagged [of None sampleSlack isoSample noArgs]
  note t2 = soft_errors_unflagged [of "Some ''C0123''" sampleSlack isoSample noArgs]
  note t3 = soft_errors_unflagged [of None sampleSlack isoSample ?q ?e]
  note t4 = soft_errors_unflagged [of "Some ''C0123''" sampleSlack isoSample noArgs _ _ "''check_build_status''"
              "ok (BuildsJson [pbFailed, pbTook] None 2)"]
  note t5 = soft_errors_unflagged [of None sampleSlack isoSample noArgs _ _ "''delete_channel''"]
  note t6 = soft_errors_unflagged [of None sampleSlack isoSample noArgs _ _ "''list_channels''" _
              "JsError ''network down'' None"]
  have c1: "callTool None sampleSlack isoSample ''check_build_status'' noArgs =
     soft ''Error: SLACK_BUILD_CHANNEL_ID not configured. Please set it in your MCP config.''"
    using t1 h1 by blast
  have c2: "callTool None sampleSlack isoSample ''search_messages'' noArgs = soft ''Error: query parameter is required''"
    using t1 h2 by blast
  have c3: "callTool None sampleSlack isoSample ''send_message'' noArgs =
     soft ''Error: No channel_id provided and SLACK_BUILD_CHANNEL_ID not configured.''"
    using t1 h3 by blast
  have c4: "callTool (Some ''C0123'') sampleSlack isoSample ''send_message'' noArgs =
     soft ''Error: text parameter is required''"
    using t2 h4 by blast
  have c5: "callTool None sampleSlack isoSample ''search_messages'' ?q =
     soft ''Error: Bot token missing 'search:read' scope. Add it in your Slack App settings.''"
    using t3 h5 by blast
  have c6: "env_isError (callTool (Some ''C0123'') sampleSlack isoSample ''check_build_status'' noArgs) = None"
    using t4 h6 h7 by blast
  have c7: "env_isError (callTool None sampleSlack isoSample ''delete_channel'' noArgs) = Some True"
    using t5 h8 by blast
  have c8: "env_isError (callTool None sampleSlack isoSample ''list_channels'' noArgs) = Some True"
    using t6 h9 by blast
  from h1 c1 h2 c2 h3 c3 h4 c4 h5 c5 h6 h7 c6 h8 c7 h9 c8 show ?thesis
    by (intro conjI) (erule conjunct1 conjunct2 | assumption)+
qed

end
